theory Spec2Isabelle
  imports Complex_Main
begin

section \<open>JavaScript values\<close>

text \<open>
  The resolver of \<^verbatim>\<open>src/components/slidePlanResolver.ts\<close> (the first class of that file,
  lines 1 to 434) reads a typed \<^verbatim>\<open>ReportTemplate\<close> and an untyped \<^verbatim>\<open>formData: any\<close>.
  The form data is modelled as a JSON value:
  \<^item> an object is the list of its own enumerable properties, in the order in which
    \<^verbatim>\<open>Object.keys\<close> enumerates them (keys are meant to be distinct);
  \<^item> a number stored in the form data is an integer (the form's inputs store text, and
    \<^verbatim>\<open>String\<close> prints an integer of magnitude below \<open>10^21\<close> as its decimal digits);
  \<^item> a string is a list of ASCII characters: \<^verbatim>\<open>toLowerCase\<close> folds \<open>A\<close> to \<open>Z\<close>, white
    space is tab, line feed, vertical tab, form feed, carriage return and space;
  \<^item> property reads are reads of own properties: what a plain object inherits from
    \<^verbatim>\<open>Object.prototype\<close> (\<^verbatim>\<open>constructor\<close>, \<^verbatim>\<open>toString\<close>, ...) is a function and is not
    a JSON value, so section and field ids are taken not to name such a member.
  The only exception the resolver can raise is a \<^verbatim>\<open>TypeError\<close>.
\<close>

datatype error = TypeError

datatype jsval =
    JUndefined
  | JNull
  | JBool bool
  | JNum int
  | JStr string
  | JArr "jsval list"
  | JObj "(string \<times> jsval) list"

text \<open>
  A number computed by the resolver (\<^verbatim>\<open>parseFloat\<close>, \<^verbatim>\<open>Math.abs\<close>, unary minus): an
  IEEE 754 double. A finite number is held as the exact rational value of that double, so
  that \<^verbatim>\<open>parseFloat\<close> rounds the decimal literal it reads to the nearest double (ties to
  even), underflows to 0 and overflows to \<^verbatim>\<open>Infinity\<close>. The sign of a zero is not kept:
  the resolver only compares with \<^verbatim>\<open>=== 0\<close> and \<^verbatim>\<open>isNaN\<close>, which do not tell \<open>-0\<close> from
  \<open>0\<close>.
\<close>

datatype jsnum = NaN | Fin rat | PosInfinity | NegInfinity

definition bindE :: "error + 'a \<Rightarrow> ('a \<Rightarrow> error + 'b) \<Rightarrow> error + 'b" where
  "bindE m f = (case m of Inl e \<Rightarrow> Inl e | Inr x \<Rightarrow> f x)"

text \<open>\<^verbatim>\<open>xs.map(f)\<close> where \<open>f\<close> may throw: the first exception ends the loop.\<close>

fun mapE :: "('a \<Rightarrow> error + 'b) \<Rightarrow> 'a list \<Rightarrow> error + 'b list" where
  "mapE f [] = Inr []"
| "mapE f (x # xs) =
     (case f x of Inl e \<Rightarrow> Inl e
      | Inr y \<Rightarrow> (case mapE f xs of Inl e \<Rightarrow> Inl e | Inr ys \<Rightarrow> Inr (y # ys)))"

text \<open>\<^verbatim>\<open>xs.some(f)\<close>: stops at the first element on which \<open>f\<close> is true or throws.\<close>

fun someE :: "('a \<Rightarrow> error + bool) \<Rightarrow> 'a list \<Rightarrow> error + bool" where
  "someE f [] = Inr False"
| "someE f (x # xs) =
     (case f x of Inl e \<Rightarrow> Inl e
      | Inr b \<Rightarrow> if b then Inr True else someE f xs)"

text \<open>\<^verbatim>\<open>xs.find(f)\<close>: the first element on which \<open>f\<close> is true; later ones are not visited.\<close>

fun findE :: "('a \<Rightarrow> error + bool) \<Rightarrow> 'a list \<Rightarrow> error + 'a option" where
  "findE f [] = Inr None"
| "findE f (x # xs) =
     (case f x of Inl e \<Rightarrow> Inl e
      | Inr b \<Rightarrow> if b then Inr (Some x) else findE f xs)"

text \<open>A \<^verbatim>\<open>forEach\<close> whose body pushes slides onto one array.\<close>

fun concatMapE :: "('a \<Rightarrow> error + 'b list) \<Rightarrow> 'a list \<Rightarrow> error + 'b list" where
  "concatMapE f [] = Inr []"
| "concatMapE f (x # xs) =
     (case f x of Inl e \<Rightarrow> Inl e
      | Inr ys \<Rightarrow> (case concatMapE f xs of Inl e \<Rightarrow> Inl e | Inr zs \<Rightarrow> Inr (ys @ zs)))"

subsection \<open>Strings\<close>

definition toLowerChar :: "char \<Rightarrow> char" where
  "toLowerChar c =
     (case map_of (zip ''ABCDEFGHIJKLMNOPQRSTUVWXYZ'' ''abcdefghijklmnopqrstuvwxyz'') c of
        Some d \<Rightarrow> d
      | None \<Rightarrow> c)"

definition toLowerCase :: "string \<Rightarrow> string" where
  "toLowerCase s = map toLowerChar s"

definition startsWith :: "string \<Rightarrow> string \<Rightarrow> bool" where
  "startsWith s p = (take (length p) s = p)"

text \<open>\<^verbatim>\<open>s.includes(p)\<close>: \<open>p\<close> occurs in \<open>s\<close> as a contiguous run.\<close>

fun str_includes :: "string \<Rightarrow> string \<Rightarrow> bool" where
  "str_includes [] p = (p = [])"
| "str_includes (c # cs) p = (if startsWith (c # cs) p then True else str_includes cs p)"

definition isWhiteSpace :: "char \<Rightarrow> bool" where
  "isWhiteSpace c = (c \<in> set [CHR 0x09, CHR 0x0A, CHR 0x0B, CHR 0x0C, CHR 0x0D, CHR '' ''])"

definition isLineTerminator :: "char \<Rightarrow> bool" where
  "isLineTerminator c = (c \<in> set [CHR 0x0A, CHR 0x0D])"

definition trim :: "string \<Rightarrow> string" where
  "trim s = rev (dropWhile isWhiteSpace (rev (dropWhile isWhiteSpace s)))"

definition isDigit :: "char \<Rightarrow> bool" where
  "isDigit c = (c \<in> set ''0123456789'')"

definition digitVal :: "char \<Rightarrow> nat" where
  "digitVal c =
     (case map_of (zip ''0123456789'' [0, 1, 2, 3, 4, 5, 6, 7, 8, 9]) c of
        Some d \<Rightarrow> d
      | None \<Rightarrow> 0)"

definition digitsValue :: "string \<Rightarrow> nat" where
  "digitsValue ds = foldl (\<lambda>a c. 10 * a + digitVal c) 0 ds"

definition digitChar :: "nat \<Rightarrow> char" where
  "digitChar n = ''0123456789'' ! n"

text \<open>The decimal digits of a natural number, as a template literal prints it.\<close>

fun showNat :: "nat \<Rightarrow> string" where
  "showNat n = (if n < 10 then [digitChar n] else showNat (n div 10) @ [digitChar (n mod 10)])"

declare showNat.simps [simp del]

definition showInt :: "int \<Rightarrow> string" where
  "showInt i = (if i < 0 then CHR ''-'' # showNat (nat (- i)) else showNat (nat i))"

subsection \<open>Truthiness, \<^verbatim>\<open>String(v)\<close>, property reads\<close>

fun truthy :: "jsval \<Rightarrow> bool" where
  "truthy JUndefined = False"
| "truthy JNull = False"
| "truthy (JBool b) = b"
| "truthy (JNum n) = (n \<noteq> 0)"
| "truthy (JStr s) = (s \<noteq> [])"
| "truthy (JArr xs) = True"
| "truthy (JObj kvs) = True"

text \<open>\<^verbatim>\<open>a || b\<close> and \<^verbatim>\<open>a ?? b\<close>.\<close>

definition jsOr :: "jsval \<Rightarrow> jsval \<Rightarrow> jsval" where
  "jsOr a b = (if truthy a then a else b)"

definition isNullish :: "jsval \<Rightarrow> bool" where
  "isNullish v = (v = JNull \<or> v = JUndefined)"

definition nullish :: "jsval \<Rightarrow> jsval \<Rightarrow> jsval" where
  "nullish a b = (if isNullish a then b else a)"

fun isArray :: "jsval \<Rightarrow> bool" where
  "isArray (JArr xs) = True"
| "isArray v = False"

fun elems :: "jsval \<Rightarrow> jsval list" where
  "elems (JArr xs) = xs"
| "elems v = []"

text \<open>
  \<^verbatim>\<open>String(v)\<close>, which a template literal applies too. An array is joined with commas,
  \<^verbatim>\<open>null\<close> and \<^verbatim>\<open>undefined\<close> elements printing as nothing. A plain object prints as
  \<^verbatim>\<open>[object Object]\<close> through \<^verbatim>\<open>Object.prototype.toString\<close>; when it has an own property
  \<^verbatim>\<open>toString\<close>, that JSON value is not callable, \<^verbatim>\<open>valueOf\<close> does not give a primitive,
  and the conversion throws a \<^verbatim>\<open>TypeError\<close>.
\<close>

fun jsString :: "jsval \<Rightarrow> error + string"
  and jsJoin :: "jsval list \<Rightarrow> error + string" where
  "jsString JUndefined = Inr ''undefined''"
| "jsString JNull = Inr ''null''"
| "jsString (JBool b) = Inr (if b then ''true'' else ''false'')"
| "jsString (JNum n) = Inr (showInt n)"
| "jsString (JStr s) = Inr s"
| "jsString (JArr xs) = jsJoin xs"
| "jsString (JObj kvs) =
     (if ''toString'' \<in> set (map fst kvs) then Inl TypeError else Inr ''[object Object]'')"
| "jsJoin [] = Inr []"
| "jsJoin (x # xs) =
     (case (if x = JNull \<or> x = JUndefined then Inr [] else jsString x) of
        Inl e \<Rightarrow> Inl e
      | Inr s \<Rightarrow>
          (if xs = [] then Inr s
           else (case jsJoin xs of Inl e \<Rightarrow> Inl e | Inr r \<Rightarrow> Inr (s @ '','' @ r))))"

text \<open>The own enumerable keys of a value that is not \<^verbatim>\<open>null\<close> or \<^verbatim>\<open>undefined\<close>.\<close>

fun ownKeys :: "jsval \<Rightarrow> string list" where
  "ownKeys (JObj kvs) = map fst kvs"
| "ownKeys (JArr xs) = map showNat [0..<length xs]"
| "ownKeys (JStr s) = map showNat [0..<length s]"
| "ownKeys v = []"

definition indexOfKey :: "string \<Rightarrow> nat \<Rightarrow> nat option" where
  "indexOfKey k n = find (\<lambda>i. showNat i = k) [0..<n]"

text \<open>\<^verbatim>\<open>v[k]\<close> on a value that is not \<^verbatim>\<open>null\<close> or \<^verbatim>\<open>undefined\<close>.\<close>

fun propOf :: "jsval \<Rightarrow> string \<Rightarrow> jsval" where
  "propOf (JObj kvs) k = (case map_of kvs k of Some v \<Rightarrow> v | None \<Rightarrow> JUndefined)"
| "propOf (JArr xs) k =
     (if k = ''length'' then JNum (int (length xs))
      else (case indexOfKey k (length xs) of Some i \<Rightarrow> xs ! i | None \<Rightarrow> JUndefined))"
| "propOf (JStr s) k =
     (if k = ''length'' then JNum (int (length s))
      else (case indexOfKey k (length s) of Some i \<Rightarrow> JStr [s ! i] | None \<Rightarrow> JUndefined))"
| "propOf v k = JUndefined"

text \<open>\<^verbatim>\<open>v[k]\<close>: reading a property of \<^verbatim>\<open>null\<close> or \<^verbatim>\<open>undefined\<close> throws.\<close>

definition getProp :: "jsval \<Rightarrow> string \<Rightarrow> error + jsval" where
  "getProp v k = (if isNullish v then Inl TypeError else Inr (propOf v k))"

text \<open>\<^verbatim>\<open>Object.keys(v)\<close>.\<close>

definition objectKeys :: "jsval \<Rightarrow> error + string list" where
  "objectKeys v = (if isNullish v then Inl TypeError else Inr (ownKeys v))"

text \<open>
  \<^verbatim>\<open>row.hasOwnProperty(key)\<close>. The method is looked up on the row itself: on \<^verbatim>\<open>null\<close> and
  \<^verbatim>\<open>undefined\<close> the lookup throws, and a row object with an own property named
  \<^verbatim>\<open>hasOwnProperty\<close> shadows the inherited method with a JSON value, which is not callable.
\<close>

fun hasOwnProperty :: "jsval \<Rightarrow> string \<Rightarrow> error + bool" where
  "hasOwnProperty JUndefined k = Inl TypeError"
| "hasOwnProperty JNull k = Inl TypeError"
| "hasOwnProperty (JObj kvs) k =
     (if ''hasOwnProperty'' \<in> set (map fst kvs) then Inl TypeError
      else Inr (k \<in> set (map fst kvs)))"
| "hasOwnProperty (JArr xs) k = Inr (k = ''length'' \<or> k \<in> set (ownKeys (JArr xs)))"
| "hasOwnProperty (JStr s) k = Inr (k = ''length'' \<or> k \<in> set (ownKeys (JStr s)))"
| "hasOwnProperty v k = Inr False"

section \<open>Numeric Normalizer\<close>

text \<open>\<^verbatim>\<open>-Math.abs(num)\<close>, \<^verbatim>\<open>isNaN(num)\<close>.\<close>

fun negAbs :: "jsnum \<Rightarrow> jsnum" where
  "negAbs NaN = NaN"
| "negAbs (Fin q) = Fin (- \<bar>q\<bar>)"
| "negAbs PosInfinity = NegInfinity"
| "negAbs NegInfinity = NegInfinity"

definition isNaN :: "jsnum \<Rightarrow> bool" where
  "isNaN x = (x = NaN)"

text \<open>
  The binary exponent \<open>\<lfloor>log 2 (a / b)\<rfloor>\<close> of a positive fraction, by integer arithmetic:
  \<open>log2floor n\<close> is \<open>\<lfloor>log 2 n\<rfloor>\<close>, and the exponent of \<open>a / b\<close> is the difference of the two
  or one less.
\<close>

fun log2floor :: "nat \<Rightarrow> nat" where
  "log2floor n = (if n < 2 then 0 else Suc (log2floor (n div 2)))"

declare log2floor.simps [simp del]

definition pow2 :: "int \<Rightarrow> rat" where
  "pow2 e = (if 0 \<le> e then 2 ^ nat e else 1 / 2 ^ nat (- e))"

definition binaryExponent :: "nat \<Rightarrow> nat \<Rightarrow> int" where
  "binaryExponent a b =
     (let e0 = int (log2floor a) - int (log2floor b)
      in if pow2 e0 * rat_of_nat b \<le> rat_of_nat a then e0 else e0 - 1)"

text \<open>\<open>num / den\<close> rounded to the nearest integer, a tie going to the even one.\<close>

definition roundHalfEven :: "nat \<Rightarrow> nat \<Rightarrow> nat" where
  "roundHalfEven num den =
     (let q = num div den; r = num mod den
      in if 2 * r < den then q
         else if den < 2 * r then q + 1
         else if even q then q else q + 1)"

text \<open>
  The Number value of \<open>a / b\<close> with the sign \<open>neg\<close>: the IEEE 754 double nearest to it, a
  tie going to the even significand. A double has 53 significant bits, so that a value of
  binary exponent \<open>e\<close> is rounded to a multiple of \<open>2 ^ (e - 52)\<close>; below \<open>2 ^ (- 1022)\<close> the
  spacing stays \<open>2 ^ (- 1074)\<close>, so that a small value rounds to a subnormal or to 0; a value
  of \<open>2 ^ 1024\<close> or more, before or after rounding, is infinite. The sign of a zero is not
  kept: \<open>- 0\<close> and \<open>0\<close> are equal for every comparison the resolver makes.
\<close>

definition toDouble :: "bool \<Rightarrow> nat \<Rightarrow> nat \<Rightarrow> jsnum" where
  "toDouble neg a b =
     (if a = 0 then Fin 0
      else if 2 ^ 1024 * b \<le> a then (if neg then NegInfinity else PosInfinity)
      else
        (let e = (if a * 2 ^ 1022 < b then - 1022 else binaryExponent a b);
             sh = e - 52;
             m = (if 0 \<le> sh then roundHalfEven a (b * 2 ^ nat sh)
                  else roundHalfEven (a * 2 ^ nat (- sh)) b);
             v = rat_of_nat m * pow2 sh
         in if 2 ^ 1024 \<le> v then (if neg then NegInfinity else PosInfinity)
            else Fin (if neg then - v else v)))"

text \<open>The value of an \<^verbatim>\<open>ExponentPart\<close> at the head of \<open>r\<close>, or 0 when there is none.\<close>

definition exponentPart :: "string \<Rightarrow> int" where
  "exponentPart r =
     (if startsWith r ''e'' \<or> startsWith r ''E'' then
        (if startsWith (tl r) ''-'' then - int (digitsValue (takeWhile isDigit (tl (tl r))))
         else if startsWith (tl r) ''+'' then int (digitsValue (takeWhile isDigit (tl (tl r))))
         else int (digitsValue (takeWhile isDigit (tl r))))
      else 0)"

text \<open>
  \<^verbatim>\<open>parseFloat(s)\<close>: leading white space is skipped and the longest prefix that is a
  \<^verbatim>\<open>StrDecimalLiteral\<close> of ECMAScript is read: a sign, then \<^verbatim>\<open>Infinity\<close> or digits with an
  optional fraction and an optional exponent. No such prefix gives \<^verbatim>\<open>NaN\<close>. The digits
  \<open>d\<close> and the decimal exponent \<open>x\<close> denote \<open>d * 10 ^ x\<close>, and the result is the double
  nearest to it.
\<close>

definition parseFloat :: "string \<Rightarrow> jsnum" where
  "parseFloat s =
     (let t = dropWhile isWhiteSpace s;
          neg = startsWith t ''-'';
          u = (if startsWith t ''-'' \<or> startsWith t ''+'' then tl t else t)
      in if startsWith u ''Infinity'' then (if neg then NegInfinity else PosInfinity)
         else
           (let ip = takeWhile isDigit u;
                r1 = dropWhile isDigit u;
                fp = (if startsWith r1 ''.'' then takeWhile isDigit (tl r1) else []);
                r2 = (if startsWith r1 ''.'' then dropWhile isDigit (tl r1) else r1);
                d = digitsValue (ip @ fp);
                x = exponentPart r2 - int (length fp)
            in if ip = [] \<and> fp = [] then NaN
               else if 0 \<le> x then toDouble neg (d * 10 ^ nat x) 1
               else toDouble neg d (10 ^ nat (- x))))"

text \<open>\<^verbatim>\<open>/^\(.*\)$/.test(str)\<close>: the dot of a regular expression matches no line terminator.\<close>

definition wrappedInParens :: "string \<Rightarrow> bool" where
  "wrappedInParens str =
     (2 \<le> length str \<and> hd str = CHR ''('' \<and> last str = CHR '')''
      \<and> filter isLineTerminator (butlast (tl str)) = [])"

text \<open>\<^verbatim>\<open>str.replace(/[$,\s]/g, '').replace(/[()]/g, '')\<close>.\<close>

definition cleaned :: "string \<Rightarrow> string" where
  "cleaned str =
     filter (\<lambda>c. c \<notin> set ''()'')
       (filter (\<lambda>c. c \<notin> set ''$,'' \<and> \<not> isWhiteSpace c) str)"

text \<open>
  \<^verbatim>\<open>
  private normalizeNumber(value: any): number {
      if (value == null) return NaN;
      const str = String(value).trim();
      const isNegative = /^\(.*\)$/.test(str);
      const cleaned = str.replace(/[$,\s]/g, '').replace(/[()]/g, '');
      const num = parseFloat(cleaned);
      return isNegative ? -Math.abs(num) : num;
  }
  \<close>
\<close>

definition normalizeNumber :: "jsval \<Rightarrow> error + jsnum" where
  "normalizeNumber v =
     (if isNullish v then Inr NaN
      else
        (case jsString v of
           Inl e \<Rightarrow> Inl e
         | Inr s \<Rightarrow>
             (let str = trim s;
                  isNegative = wrappedInParens str;
                  num = parseFloat (cleaned str)
              in Inr (if isNegative then negAbs num else num))))"

text \<open>
  The spec's words for the cleaning step: currency symbols, commas, white space and
  parentheses are stripped, from the value as given.
\<close>

definition stripped :: "string \<Rightarrow> string" where
  "stripped s = filter (\<lambda>c. c \<notin> set ''$,()'' \<and> \<not> isWhiteSpace c) s"

section \<open>Templates and slides\<close>

text \<open>
  The types of \<^verbatim>\<open>src/types.ts\<close>. Of a \<^verbatim>\<open>FormField\<close> the resolver reads \<^verbatim>\<open>id\<close>, \<^verbatim>\<open>label\<close>,
  \<^verbatim>\<open>type\<close> and the optional \<^verbatim>\<open>columns\<close>; its other optional members are left out.
\<close>

datatype FieldType = TEXT | TEXTAREA | NUMBER | DATE | TABLE | BULLET | SIGNATURE | PHOTOS

record FormField =
  field_id :: string
  field_label :: string
  field_type :: FieldType
  field_columns :: "string list option"

record FormSection =
  section_id :: string
  section_title :: string
  section_fields :: "FormField list"

record ReportTemplate =
  template_key :: string
  template_name :: string
  template_title :: string
  template_sections :: "FormSection list"

datatype SlideLayoutType =
  Title | SectionHeader | TwoColumn | ImageLeftTextRight | Summary | PhotoGrid | ChartFull

datatype ChartType = Pie | Bar | Line

text \<open>
  The \<^verbatim>\<open>data\<close> member of a slide, by layout: \<^verbatim>\<open>{subtitle, author}\<close>,
  \<^verbatim>\<open>{table: {headers, rows}}\<close>, \<^verbatim>\<open>{list, image: null}\<close>, \<^verbatim>\<open>{images}\<close>,
  \<^verbatim>\<open>{chart: {chartType, data: {labels, values}}}\<close> and \<^verbatim>\<open>{kpis}\<close> with \<^verbatim>\<open>{value, label}\<close>
  entries.
\<close>

datatype SlideData =
    TitleData jsval jsval
  | TableData "string list" "string list list"
  | ListData "jsval list"
  | ImagesData "jsval list"
  | ChartData ChartType "string list" "jsnum list"
  | KpisData "(jsnum \<times> string) list"

record OriginalLayout =
  generativeIconPrompt :: "string option"
  suggestedChart :: "(ChartType \<times> string) option"

record ResolvedSlide =
  slide_id :: string
  slide_title :: string
  layout :: SlideLayoutType
  data :: SlideData
  originalLayout :: OriginalLayout

text \<open>\<^verbatim>\<open>a || b\<close> on strings, \<^verbatim>\<open>headers[i]\<close>, and the key a property name converts to.\<close>

definition strOr :: "string \<Rightarrow> string \<Rightarrow> string" where
  "strOr a b = (if a \<noteq> [] then a else b)"

definition nth_opt :: "'a list \<Rightarrow> nat \<Rightarrow> 'a option" where
  "nth_opt xs i = (if i < length xs then Some (xs ! i) else None)"

fun propertyKey :: "string option \<Rightarrow> string" where
  "propertyKey None = ''undefined''"
| "propertyKey (Some k) = k"

fun optionList :: "'a option \<Rightarrow> 'a list" where
  "optionList None = []"
| "optionList (Some x) = [x]"

fun chartTypeName :: "ChartType \<Rightarrow> string" where
  "chartTypeName Pie = ''pie''"
| "chartTypeName Bar = ''bar''"
| "chartTypeName Line = ''line''"

section \<open>Column Accessor\<close>

text \<open>
  The closure of \<^verbatim>\<open>createSlidesForSection\<close> (lines 124 to 140), which returns text:
  \<^verbatim>\<open>
  const getColumnValue = (row: any, header: string, headerIndex: number): string => {
      if (row.hasOwnProperty(header)) return String(row[header] ?? '');
      const lowerHeader = header.toLowerCase();
      const matchingKey = Object.keys(row).find(k => k.toLowerCase() === lowerHeader);
      if (matchingKey) return String(row[matchingKey] ?? '');
      const dataKeys = Object.keys(row).filter(k => k !== 'tooltips' && k !== 'photos');
      if (headerIndex < dataKeys.length) {
          return String(row[dataKeys[headerIndex]] ?? '');
      }
      return '';
  };
  \<close>
  Once \<^verbatim>\<open>row.hasOwnProperty\<close> has returned, the row is neither \<^verbatim>\<open>null\<close> nor
  \<^verbatim>\<open>undefined\<close>, so the reads that follow are \<open>propOf\<close> and \<open>ownKeys\<close>.
\<close>

definition dataKeys :: "jsval \<Rightarrow> string list" where
  "dataKeys row = filter (\<lambda>k. k \<noteq> ''tooltips'' \<and> k \<noteq> ''photos'') (ownKeys row)"

definition cellText :: "jsval \<Rightarrow> error + string" where
  "cellText v = jsString (nullish v (JStr []))"

definition getColumnValue :: "jsval \<Rightarrow> string \<Rightarrow> nat \<Rightarrow> error + string" where
  "getColumnValue row header headerIndex =
     (case hasOwnProperty row header of
        Inl e \<Rightarrow> Inl e
      | Inr own \<Rightarrow>
          if own then cellText (propOf row header)
          else
            (let lowerHeader = toLowerCase header;
                 matchingKey = find (\<lambda>k. toLowerCase k = lowerHeader) (ownKeys row);
                 positional =
                   (if headerIndex < length (dataKeys row)
                    then cellText (propOf row (dataKeys row ! headerIndex))
                    else Inr [])
             in case matchingKey of
                  Some k \<Rightarrow> if k \<noteq> [] then cellText (propOf row k) else positional
                | None \<Rightarrow> positional))"

text \<open>
  The closure of \<^verbatim>\<open>createChartFromTable\<close> (lines 262 to 269) and, with the same text, of
  \<^verbatim>\<open>createSummarySlide\<close> (lines 348 to 355), which returns the stored value:
  \<^verbatim>\<open>
  const getColumnValue = (row: any, header: string, headerIndex: number): any => {
      if (row.hasOwnProperty(header)) return row[header];
      const lowerHeader = header.toLowerCase();
      const matchingKey = Object.keys(row).find(k => k.toLowerCase() === lowerHeader);
      if (matchingKey) return row[matchingKey];
      const dataKeys = Object.keys(row).filter(k => k !== 'tooltips' && k !== 'photos');
      return headerIndex < dataKeys.length ? row[dataKeys[headerIndex]] : null;
  };
  \<close>
  Its callers pass \<^verbatim>\<open>headers[i]\<close>, which is \<^verbatim>\<open>undefined\<close> (here \<open>None\<close>) when the column list
  is shorter: \<^verbatim>\<open>hasOwnProperty(undefined)\<close> asks for the key \<^verbatim>\<open>"undefined"\<close>, and
  \<^verbatim>\<open>undefined.toLowerCase()\<close> throws.
\<close>

definition getColumnValueRaw :: "jsval \<Rightarrow> string option \<Rightarrow> nat \<Rightarrow> error + jsval" where
  "getColumnValueRaw row header headerIndex =
     (case hasOwnProperty row (propertyKey header) of
        Inl e \<Rightarrow> Inl e
      | Inr own \<Rightarrow>
          if own then Inr (propOf row (propertyKey header))
          else
            (case header of
               None \<Rightarrow> Inl TypeError
             | Some h \<Rightarrow>
                 (let lowerHeader = toLowerCase h;
                      matchingKey = find (\<lambda>k. toLowerCase k = lowerHeader) (ownKeys row);
                      positional =
                        (if headerIndex < length (dataKeys row)
                         then propOf row (dataKeys row ! headerIndex)
                         else JNull)
                  in case matchingKey of
                       Some k \<Rightarrow> if k \<noteq> [] then Inr (propOf row k) else Inr positional
                     | None \<Rightarrow> Inr positional)))"

section \<open>Slide Plan Resolver\<close>

text \<open>
  The class holds \<^verbatim>\<open>template\<close> and \<^verbatim>\<open>formData\<close>, set by the constructor and never
  assigned again; its methods take them as arguments here.
\<close>

text \<open>\<^verbatim>\<open>this.formData[section.id] || {}\<close>.\<close>

definition sectionDataOf :: "jsval \<Rightarrow> string \<Rightarrow> error + jsval" where
  "sectionDataOf formData sid =
     (case getProp formData sid of Inl e \<Rightarrow> Inl e | Inr v \<Rightarrow> Inr (jsOr v (JObj [])))"

text \<open>
  \<^verbatim>\<open>
  private createTitleSlide(): ResolvedSlide | null {
      const headerData = this.formData['header'] || {};
      const quarter = headerData['quarter'] || headerData['reportingQuarter'] || '';
      const preparedBy = headerData['preparedBy'] || headerData['reportingLeader'] || '';
      return { id: `title-${this.template.key}`, title: this.template.title, layout: 'title',
               data: { subtitle: quarter, author: preparedBy }, originalLayout: {} };
  }
  \<close>
\<close>

definition createTitleSlide :: "ReportTemplate \<Rightarrow> jsval \<Rightarrow> error + ResolvedSlide option" where
  "createTitleSlide template formData =
     bindE (sectionDataOf formData ''header'') (\<lambda>headerData.
     bindE (getProp headerData ''quarter'') (\<lambda>q1.
     bindE (getProp headerData ''reportingQuarter'') (\<lambda>q2.
     bindE (getProp headerData ''preparedBy'') (\<lambda>p1.
     bindE (getProp headerData ''reportingLeader'') (\<lambda>p2.
       (let quarter = jsOr (jsOr q1 q2) (JStr []);
            preparedBy = jsOr (jsOr p1 p2) (JStr [])
        in Inr (Some \<lparr>slide_id = ''title-'' @ template_key template,
                      slide_title = template_title template,
                      layout = Title,
                      data = TitleData quarter preparedBy,
                      originalLayout = \<lparr>generativeIconPrompt = None,
                                        suggestedChart = None\<rparr>\<rparr>)))))))"

text \<open>\<^verbatim>\<open>getIconPromptForSection\<close> (lines 404 to 425).\<close>

definition getIconPromptForSection :: "FormSection \<Rightarrow> string" where
  "getIconPromptForSection section =
     (let sectionTitle = toLowerCase (section_title section)
      in if str_includes sectionTitle ''financial'' \<or> str_includes sectionTitle ''treasury''
            \<or> str_includes sectionTitle ''receipt'' \<or> str_includes sectionTitle ''disbursement''
         then ''A clean, modern icon representing financial data and monetary transactions''
         else if str_includes sectionTitle ''membership'' \<or> str_includes sectionTitle ''attendance''
         then ''A simple icon representing people and community engagement''
         else if str_includes sectionTitle ''program'' \<or> str_includes sectionTitle ''activities''
            \<or> str_includes sectionTitle ''ministries''
         then ''An icon representing programs, activities, and ministry work''
         else if str_includes sectionTitle ''youth'' \<or> str_includes sectionTitle ''children''
         then ''A friendly icon representing youth and children programs''
         else if str_includes sectionTitle ''outreach'' \<or> str_includes sectionTitle ''mission''
         then ''An icon representing community outreach and mission work''
         else ''A professional icon representing church ministry and administration'')"

subsection \<open>Chart derivation (\<^verbatim>\<open>createChartFromTable\<close>, lines 256 to 329)\<close>

text \<open>\<^verbatim>\<open>val != null && !isNaN(this.normalizeNumber(val))\<close>.\<close>

definition isNumericCell :: "jsval \<Rightarrow> error + bool" where
  "isNumericCell val =
     (if isNullish val then Inr False
      else (case normalizeNumber val of Inl e \<Rightarrow> Inl e | Inr n \<Rightarrow> Inr (\<not> isNaN n)))"

text \<open>The body of the loop over \<open>i\<close>: \<^verbatim>\<open>tableData.some(row => ...)\<close> for column \<open>i\<close>.\<close>

definition hasNumeric :: "string list \<Rightarrow> jsval list \<Rightarrow> nat \<Rightarrow> error + bool" where
  "hasNumeric headers tableData i =
     someE (\<lambda>row. case getColumnValueRaw row (nth_opt headers i) i of
                     Inl e \<Rightarrow> Inl e
                   | Inr val \<Rightarrow> isNumericCell val) tableData"

text \<open>One element of \<^verbatim>\<open>chartData\<close> before the filter, and the filter's predicate.\<close>

definition chartItem :: "string list \<Rightarrow> nat \<Rightarrow> jsval \<Rightarrow> error + (string \<times> jsnum)" where
  "chartItem headers valueColIndex row =
     bindE (getColumnValueRaw row (nth_opt headers 0) 0) (\<lambda>lv.
     bindE (cellText lv) (\<lambda>label.
     bindE (getColumnValueRaw row (nth_opt headers valueColIndex) valueColIndex) (\<lambda>vv.
     bindE (normalizeNumber vv) (\<lambda>val. Inr (label, val)))))"

definition keepChartItem :: "string \<times> jsnum \<Rightarrow> bool" where
  "keepChartItem item =
     (let label = toLowerCase (fst item)
      in fst item \<noteq> [] \<and> \<not> isNaN (snd item) \<and> label \<noteq> ''total''
         \<and> label \<noteq> ''net surplus / (deficit)'' \<and> label \<noteq> ''grand total'')"

definition chartSlide ::
  "FormField \<Rightarrow> FormSection \<Rightarrow> nat \<Rightarrow> (string \<times> jsnum) list \<Rightarrow> ResolvedSlide" where
  "chartSlide field section fieldIndex chartData =
     (let labels = map fst chartData;
          vals = map snd chartData;
          chartType = (if length vals > 5 then Bar else Pie)
      in \<lparr>slide_id = section_id section @ ''-chart-'' @ showNat fieldIndex,
          slide_title = strOr (field_label field) (section_title section) @ '' - Chart'',
          layout = ChartFull,
          data = ChartData chartType labels vals,
          originalLayout =
            \<lparr>generativeIconPrompt =
               Some (''A '' @ chartTypeName chartType
                     @ '' chart icon representing data visualization''),
             suggestedChart =
               Some (chartType, ''$.'' @ section_id section @ ''.'' @ field_id field)\<rparr>\<rparr>)"

definition createChartFromTable ::
  "FormField \<Rightarrow> jsval list \<Rightarrow> FormSection \<Rightarrow> nat \<Rightarrow> error + ResolvedSlide option" where
  "createChartFromTable field tableData section fieldIndex =
     (case field_columns field of
        None \<Rightarrow> Inr None
      | Some headers \<Rightarrow>
          if length headers < 2 then Inr None
          else
            (case findE (hasNumeric headers tableData) [1..<length headers] of
               Inl e \<Rightarrow> Inl e
             | Inr None \<Rightarrow> Inr None
             | Inr (Some valueColIndex) \<Rightarrow>
                 (case mapE (chartItem headers valueColIndex) tableData of
                    Inl e \<Rightarrow> Inl e
                  | Inr items \<Rightarrow>
                      (let chartData = filter keepChartItem items
                       in if length chartData = 0
                             \<or> list_all (\<lambda>item. snd item = Fin 0) chartData
                          then Inr None
                          else Inr (Some (chartSlide field section fieldIndex chartData))))))"

subsection \<open>Executive summary (\<^verbatim>\<open>createSummarySlide\<close>, lines 331 to 396)\<close>

text \<open>
  The predicate of \<^verbatim>\<open>tableData.find\<close>:
  \<^verbatim>\<open>
  const labelValue = String(getColumnValue(row, headers[0], 0) ?? '').toLowerCase();
  return labelValue.includes('total') || labelValue.includes('surplus')
      || labelValue.includes('deficit');
  \<close>
\<close>

definition isTotalRow :: "string list \<Rightarrow> jsval \<Rightarrow> error + bool" where
  "isTotalRow headers row =
     bindE (getColumnValueRaw row (nth_opt headers 0) 0) (\<lambda>v.
     bindE (cellText v) (\<lambda>s.
       (let labelValue = toLowerCase s
        in Inr (str_includes labelValue ''total'' \<or> str_includes labelValue ''surplus''
                \<or> str_includes labelValue ''deficit''))))"

text \<open>
  The loop \<^verbatim>\<open>for (let i = 1; i < headers.length; i++)\<close> over the total row, which pushes
  one KPI and breaks at the first column whose value normalizes to a number.
\<close>

fun firstNumeric :: "jsval \<Rightarrow> string list \<Rightarrow> nat list \<Rightarrow> error + (jsnum \<times> nat) option" where
  "firstNumeric totalRow headers [] = Inr None"
| "firstNumeric totalRow headers (i # is) =
     bindE (getColumnValueRaw totalRow (nth_opt headers i) i) (\<lambda>v.
     bindE (normalizeNumber v) (\<lambda>numValue.
       if \<not> isNaN numValue then Inr (Some (numValue, i))
       else firstNumeric totalRow headers is))"

text \<open>The body of \<^verbatim>\<open>section.fields.forEach\<close>: the KPIs one field pushes.\<close>

definition fieldKpis :: "jsval \<Rightarrow> FormField \<Rightarrow> error + (jsnum \<times> string) list" where
  "fieldKpis sectionData field =
     (if field_type field = TABLE then
        (case field_columns field of
           None \<Rightarrow> Inr []
         | Some headers \<Rightarrow>
             bindE (getProp sectionData (field_id field)) (\<lambda>tableData.
               if \<not> isArray tableData then Inr []
               else
                 bindE (findE (isTotalRow headers) (elems tableData)) (\<lambda>found.
                   case found of
                     None \<Rightarrow> Inr []
                   | Some totalRow \<Rightarrow>
                       if truthy totalRow then
                         bindE (firstNumeric totalRow headers [1..<length headers]) (\<lambda>r.
                           case r of
                             None \<Rightarrow> Inr []
                           | Some (numValue, i) \<Rightarrow>
                               Inr [(numValue, strOr (field_label field) (headers ! i))])
                       else Inr [])))
      else Inr [])"

definition reservedSection :: "FormSection \<Rightarrow> bool" where
  "reservedSection section =
     (section_id section = ''header'' \<or> section_id section = ''signatures'')"

definition sectionKpis :: "jsval \<Rightarrow> FormSection \<Rightarrow> error + (jsnum \<times> string) list" where
  "sectionKpis formData section =
     (if reservedSection section then Inr []
      else bindE (sectionDataOf formData (section_id section)) (\<lambda>sectionData.
             concatMapE (fieldKpis sectionData) (section_fields section)))"

text \<open>The array \<^verbatim>\<open>kpis\<close> when the two nested \<^verbatim>\<open>forEach\<close> loops have run.\<close>

definition collectKpis :: "ReportTemplate \<Rightarrow> jsval \<Rightarrow> error + (jsnum \<times> string) list" where
  "collectKpis template formData =
     concatMapE (sectionKpis formData) (template_sections template)"

definition summarySlide :: "ReportTemplate \<Rightarrow> (jsnum \<times> string) list \<Rightarrow> ResolvedSlide" where
  "summarySlide template kpis =
     \<lparr>slide_id = ''summary-'' @ template_key template,
      slide_title = ''Executive Summary'',
      layout = Summary,
      data = KpisData (take 4 kpis),
      originalLayout =
        \<lparr>generativeIconPrompt =
           Some ''A minimalist icon representing key performance metrics and summary statistics'',
         suggestedChart = None\<rparr>\<rparr>"

text \<open>
  \<^verbatim>\<open>
  // Only create summary if we have 2-4 KPIs
  if (kpis.length >= 2 && kpis.length <= 4) {
      return { id: `summary-${this.template.key}`, title: 'Executive Summary',
               layout: 'summary', data: { kpis: kpis.slice(0, 4) }, ... };
  }
  return null;
  \<close>
\<close>

definition createSummarySlide :: "ReportTemplate \<Rightarrow> jsval \<Rightarrow> error + ResolvedSlide option" where
  "createSummarySlide template formData =
     bindE (collectKpis template formData) (\<lambda>kpis.
       if length kpis \<ge> 2 \<and> length kpis \<le> 4 then Inr (Some (summarySlide template kpis))
       else Inr None)"

subsection \<open>Slides of one section (\<^verbatim>\<open>createSlidesForSection\<close>, lines 104 to 254)\<close>

text \<open>
  The two pagination loops, which differ in the id prefix and the title only:
  \<^verbatim>\<open>
  for (let i = 0; i < photoData.length; i += 4) {
      const pagePhotos = photoData.slice(i, i + 4);
      const pageNum = Math.floor(i / 4) + 1;
      const totalPages = Math.ceil(photoData.length / 4);
      slides.push({ id: `${section.id}-photos-${fieldIndex}-page${pageNum}`,
          title: `${field.label || section.title}${totalPages > 1
                     ? ` (${pageNum}/${totalPages})` : ''}`,
          layout: 'photoGrid', data: { images: pagePhotos }, originalLayout: {} });
  }
  \<close>
\<close>

definition photoPage :: "string \<Rightarrow> string \<Rightarrow> jsval list \<Rightarrow> nat \<Rightarrow> ResolvedSlide" where
  "photoPage idPrefix titleBase photos i =
     (let pagePhotos = take 4 (drop i photos);
          pageNum = nat \<lfloor>rat_of_nat i / 4\<rfloor> + 1;
          totalPages = nat \<lceil>rat_of_nat (length photos) / 4\<rceil>
      in \<lparr>slide_id = idPrefix @ ''-page'' @ showNat pageNum,
          slide_title = titleBase
            @ (if totalPages > 1
               then '' ('' @ showNat pageNum @ ''/'' @ showNat totalPages @ '')''
               else []),
          layout = PhotoGrid,
          data = ImagesData pagePhotos,
          originalLayout = \<lparr>generativeIconPrompt = None, suggestedChart = None\<rparr>\<rparr>)"

function photoPages :: "string \<Rightarrow> string \<Rightarrow> jsval list \<Rightarrow> nat \<Rightarrow> ResolvedSlide list" where
  "photoPages idPrefix titleBase photos i =
     (if i < length photos
      then photoPage idPrefix titleBase photos i # photoPages idPrefix titleBase photos (i + 4)
      else [])"
  by pat_completeness auto
termination
  by (relation "measure (\<lambda>(idPrefix, titleBase, photos, i). length photos - i)") auto

declare photoPages.simps [simp del]

text \<open>
  \<^verbatim>\<open>tableData.map(row => headers.map((header, idx) => getColumnValue(row, header, idx)))\<close>
\<close>

definition tableRows :: "string list \<Rightarrow> jsval list \<Rightarrow> error + string list list" where
  "tableRows headers tableData =
     mapE (\<lambda>row. mapE (\<lambda>(idx, header). getColumnValue row header idx) (enumerate 0 headers))
       tableData"

text \<open>
  \<^verbatim>\<open>tableData.flatMap(row => row.photos || []).filter(Boolean)\<close>: \<^verbatim>\<open>flatMap\<close> spreads an array
  by one level and keeps any other value as one element.
\<close>

definition rowPhotos :: "jsval \<Rightarrow> error + jsval list" where
  "rowPhotos row =
     bindE (getProp row ''photos'') (\<lambda>p.
       (let v = jsOr p (JArr []) in Inr (if isArray v then elems v else [v])))"

definition tablePhotos :: "jsval list \<Rightarrow> error + jsval list" where
  "tablePhotos tableData = bindE (concatMapE rowPhotos tableData) (\<lambda>ps. Inr (filter truthy ps))"

definition tableSlide ::
  "FormSection \<Rightarrow> FormField \<Rightarrow> nat \<Rightarrow> string list \<Rightarrow> string list list \<Rightarrow> ResolvedSlide" where
  "tableSlide section field fieldIndex headers rows =
     \<lparr>slide_id = section_id section @ ''-table-'' @ showNat fieldIndex,
      slide_title = strOr (field_label field) (section_title section),
      layout = TwoColumn,
      data = TableData headers rows,
      originalLayout = \<lparr>generativeIconPrompt = Some (getIconPromptForSection section),
                        suggestedChart = None\<rparr>\<rparr>"

text \<open>The body of \<^verbatim>\<open>tables.forEach((field, fieldIndex) => ...)\<close>: the slides it pushes.\<close>

definition tableFieldSlides ::
  "FormSection \<Rightarrow> jsval \<Rightarrow> nat \<times> FormField \<Rightarrow> error + ResolvedSlide list" where
  "tableFieldSlides section sectionData fi =
     (let fieldIndex = fst fi; field = snd fi
      in bindE (getProp sectionData (field_id field)) (\<lambda>tableData.
           if \<not> truthy tableData \<or> \<not> isArray tableData \<or> length (elems tableData) = 0
           then Inr []
           else
             (let headers = (case field_columns field of Some cs \<Rightarrow> cs | None \<Rightarrow> [])
              in bindE (tableRows headers (elems tableData)) (\<lambda>rows.
                 bindE (createChartFromTable field (elems tableData) section fieldIndex)
                   (\<lambda>chart.
                 bindE (tablePhotos (elems tableData)) (\<lambda>photos.
                   Inr ([tableSlide section field fieldIndex headers rows]
                        @ optionList chart
                        @ (if length photos > 0
                           then photoPages
                                  (section_id section @ ''-table-photos-'' @ showNat fieldIndex)
                                  (strOr (field_label field) (section_title section)
                                   @ '' - Photos'')
                                  photos 0
                           else []))))))))"

text \<open>The body of \<^verbatim>\<open>bullets.forEach((field, fieldIndex) => ...)\<close>.\<close>

definition bulletFieldSlides ::
  "FormSection \<Rightarrow> jsval \<Rightarrow> nat \<times> FormField \<Rightarrow> error + ResolvedSlide list" where
  "bulletFieldSlides section sectionData fi =
     (let fieldIndex = fst fi; field = snd fi
      in bindE (getProp sectionData (field_id field)) (\<lambda>bulletData.
           if \<not> truthy bulletData \<or> \<not> isArray bulletData
              \<or> length (filter truthy (elems bulletData)) = 0
           then Inr []
           else Inr [\<lparr>slide_id = section_id section @ ''-bullet-'' @ showNat fieldIndex,
                      slide_title = strOr (field_label field) (section_title section),
                      layout = ImageLeftTextRight,
                      data = ListData (filter truthy (elems bulletData)),
                      originalLayout =
                        \<lparr>generativeIconPrompt = Some (getIconPromptForSection section),
                         suggestedChart = None\<rparr>\<rparr>]))"

text \<open>The body of \<^verbatim>\<open>photos.forEach((field, fieldIndex) => ...)\<close>.\<close>

definition photoFieldSlides ::
  "FormSection \<Rightarrow> jsval \<Rightarrow> nat \<times> FormField \<Rightarrow> error + ResolvedSlide list" where
  "photoFieldSlides section sectionData fi =
     (let fieldIndex = fst fi; field = snd fi
      in bindE (getProp sectionData (field_id field)) (\<lambda>photoData.
           if \<not> truthy photoData \<or> \<not> isArray photoData \<or> length (elems photoData) = 0
           then Inr []
           else Inr (photoPages (section_id section @ ''-photos-'' @ showNat fieldIndex)
                       (strOr (field_label field) (section_title section))
                       (elems photoData) 0)))"

text \<open>
  The text summary: \<^verbatim>\<open>textFields.map(f => { const value = sectionData[f.id];\<close>
  \<^verbatim>\<open>if (!value) return null; return `${f.label}: ${value}`; }).filter(Boolean)\<close>.
\<close>

definition textEntry :: "jsval \<Rightarrow> FormField \<Rightarrow> error + jsval" where
  "textEntry sectionData f =
     bindE (getProp sectionData (field_id f)) (\<lambda>v.
       if \<not> truthy v then Inr JNull
       else bindE (jsString v) (\<lambda>s. Inr (JStr (field_label f @ '': '' @ s))))"

definition textSlides :: "FormSection \<Rightarrow> jsval \<Rightarrow> FormField list \<Rightarrow> error + ResolvedSlide list" where
  "textSlides section sectionData textFields =
     (if length textFields > 0 then
        bindE (mapE (textEntry sectionData) textFields) (\<lambda>entries.
          (let textList = filter truthy entries
           in if length textList > 0
              then Inr [\<lparr>slide_id = section_id section @ ''-text-summary'',
                         slide_title = section_title section,
                         layout = ImageLeftTextRight,
                         data = ListData textList,
                         originalLayout =
                           \<lparr>generativeIconPrompt = Some (getIconPromptForSection section),
                            suggestedChart = None\<rparr>\<rparr>]
              else Inr []))
      else Inr [])"

definition createSlidesForSection ::
  "jsval \<Rightarrow> FormSection \<Rightarrow> nat \<Rightarrow> error + ResolvedSlide list" where
  "createSlidesForSection formData section sectionIndex =
     bindE (sectionDataOf formData (section_id section)) (\<lambda>sectionData.
       (let tables = filter (\<lambda>f. field_type f = TABLE) (section_fields section);
            bullets = filter (\<lambda>f. field_type f = BULLET) (section_fields section);
            photos = filter (\<lambda>f. field_type f = PHOTOS) (section_fields section);
            textFields = filter (\<lambda>f. field_type f \<in> set [TEXT, TEXTAREA, NUMBER, DATE])
                           (section_fields section)
        in bindE (concatMapE (tableFieldSlides section sectionData) (enumerate 0 tables))
             (\<lambda>s1.
           bindE (concatMapE (bulletFieldSlides section sectionData) (enumerate 0 bullets))
             (\<lambda>s2.
           bindE (concatMapE (photoFieldSlides section sectionData) (enumerate 0 photos))
             (\<lambda>s3.
           bindE (textSlides section sectionData textFields)
             (\<lambda>s4. Inr (s1 @ s2 @ s3 @ s4)))))))"

subsection \<open>\<^verbatim>\<open>resolve\<close> (lines 55 to 83)\<close>

text \<open>\<^verbatim>\<open>createPhotoGridSlide\<close> (lines 398 to 402) returns \<^verbatim>\<open>null\<close>.\<close>

definition createPhotoGridSlide :: "ResolvedSlide option" where
  "createPhotoGridSlide = None"

text \<open>The body of \<^verbatim>\<open>this.template.sections.forEach((section, sectionIndex) => ...)\<close>.\<close>

definition sectionStep :: "jsval \<Rightarrow> nat \<times> FormSection \<Rightarrow> error + ResolvedSlide list" where
  "sectionStep formData si =
     (let sectionIndex = fst si; section = snd si
      in if section_id section = ''header'' then Inr []
         else if section_id section = ''signatures'' then Inr []
         else createSlidesForSection formData section sectionIndex)"

definition resolve :: "ReportTemplate \<Rightarrow> jsval \<Rightarrow> error + ResolvedSlide list" where
  "resolve template formData =
     bindE (createTitleSlide template formData) (\<lambda>titleSlide.
     bindE (concatMapE (sectionStep formData) (enumerate 0 (template_sections template)))
       (\<lambda>sectionSlides.
     bindE (createSummarySlide template formData) (\<lambda>summary.
       Inr (optionList titleSlide @ sectionSlides @ optionList summary
            @ optionList createPhotoGridSlide))))"

text \<open>\<^verbatim>\<open>getResolvedSlides\<close> (lines 431 to 434) builds a resolver and calls \<^verbatim>\<open>resolve\<close>.\<close>

definition getResolvedSlides :: "ReportTemplate \<Rightarrow> jsval \<Rightarrow> error + ResolvedSlide list" where
  "getResolvedSlides template formData = resolve template formData"

section \<open>The spec's Column Accessor\<close>

text \<open>
  The resolution order of the spec, over a row record given as its key and value pairs:
  exact key, key equal under case folding, position among the keys other than
  \<^verbatim>\<open>photos\<close> and \<^verbatim>\<open>tooltips\<close>, and the empty value.
\<close>

definition exactTier :: "(string \<times> jsval) list \<Rightarrow> string \<Rightarrow> jsval option" where
  "exactTier kvs headerLabel = map_of kvs headerLabel"

definition foldTier :: "(string \<times> jsval) list \<Rightarrow> string \<Rightarrow> jsval option" where
  "foldTier kvs headerLabel =
     map_option snd (find (\<lambda>kv. toLowerCase (fst kv) = toLowerCase headerLabel) kvs)"

definition positionalTier :: "(string \<times> jsval) list \<Rightarrow> nat \<Rightarrow> jsval option" where
  "positionalTier kvs headerIndex =
     nth_opt (map snd (filter (\<lambda>kv. fst kv \<noteq> ''photos'' \<and> fst kv \<noteq> ''tooltips'') kvs))
       headerIndex"

definition valueFor :: "(string \<times> jsval) list \<Rightarrow> string \<Rightarrow> nat \<Rightarrow> jsval" where
  "valueFor kvs headerLabel headerIndex =
     (case exactTier kvs headerLabel of
        Some v \<Rightarrow> v
      | None \<Rightarrow>
          (case foldTier kvs headerLabel of
             Some v \<Rightarrow> v
           | None \<Rightarrow>
               (case positionalTier kvs headerIndex of
                  Some v \<Rightarrow> v
                | None \<Rightarrow> JNull)))"

text \<open>
  A row record: an object whose keys are distinct, as the keys of an object are, and
  which does not shadow \<^verbatim>\<open>hasOwnProperty\<close>.
\<close>

definition recordRow :: "(string \<times> jsval) list \<Rightarrow> bool" where
  "recordRow kvs = (distinct (map fst kvs) \<and> ''hasOwnProperty'' \<notin> set (map fst kvs))"

section \<open>Views of the output\<close>

text \<open>The layouts of the slides a section contributes.\<close>

definition sectionLayout :: "ResolvedSlide \<Rightarrow> bool" where
  "sectionLayout s = (layout s \<in> set [TwoColumn, ChartFull, PhotoGrid, ImageLeftTextRight])"

text \<open>The slides of a result, none when \<^verbatim>\<open>resolve\<close> threw.\<close>

definition slidesOf :: "error + ResolvedSlide list \<Rightarrow> ResolvedSlide list" where
  "slidesOf r = (case r of Inl e \<Rightarrow> [] | Inr slides \<Rightarrow> slides)"

definition noSummary :: "ResolvedSlide list \<Rightarrow> bool" where
  "noSummary slides = list_all (\<lambda>s. layout s \<noteq> Summary) slides"

text \<open>The field groups of a section, as \<^verbatim>\<open>createSlidesForSection\<close> filters them.\<close>

definition tablesOf :: "FormSection \<Rightarrow> FormField list" where
  "tablesOf section = filter (\<lambda>f. field_type f = TABLE) (section_fields section)"

definition photosOf :: "FormSection \<Rightarrow> FormField list" where
  "photosOf section = filter (\<lambda>f. field_type f = PHOTOS) (section_fields section)"

text \<open>The slides of one photo-collection field that holds \<open>imgs\<close>.\<close>

definition photoFieldPages ::
  "FormSection \<Rightarrow> nat \<Rightarrow> FormField \<Rightarrow> jsval list \<Rightarrow> ResolvedSlide list" where
  "photoFieldPages section fieldIndex field imgs =
     photoPages (section_id section @ ''-photos-'' @ showNat fieldIndex)
       (strOr (field_label field) (section_title section)) imgs 0"

text \<open>
  The title slide in the spec's words: subtitle and author are read from the \<^verbatim>\<open>header\<close>
  entry of the form data under the first of two aliases that holds a truthy value, and
  are the empty string otherwise.
\<close>

definition headerAlias :: "jsval \<Rightarrow> string \<Rightarrow> string \<Rightarrow> jsval" where
  "headerAlias formData a b =
     (let headerData = jsOr (propOf formData ''header'') (JObj [])
      in jsOr (jsOr (propOf headerData a) (propOf headerData b)) (JStr []))"

definition titleSlideOf :: "ReportTemplate \<Rightarrow> jsval \<Rightarrow> ResolvedSlide" where
  "titleSlideOf template formData =
     \<lparr>slide_id = ''title-'' @ template_key template,
      slide_title = template_title template,
      layout = Title,
      data = TitleData (headerAlias formData ''quarter'' ''reportingQuarter'')
               (headerAlias formData ''preparedBy'' ''reportingLeader''),
      originalLayout = \<lparr>generativeIconPrompt = None, suggestedChart = None\<rparr>\<rparr>"

text \<open>The sections other than \<^verbatim>\<open>header\<close> and \<^verbatim>\<open>signatures\<close>, with their indices, in order.\<close>

definition contentSections :: "ReportTemplate \<Rightarrow> (nat \<times> FormSection) list" where
  "contentSections template =
     filter (\<lambda>si. \<not> reservedSection (snd si)) (enumerate 0 (template_sections template))"

section \<open>Stored tables in the spec's words\<close>

text \<open>
  A stored table as the data model has it: every row is a row record, and every value of
  a row prints (a scalar always does; an array or an object does unless an object in it
  has a key \<^verbatim>\<open>toString\<close>).
\<close>

definition printable :: "jsval \<Rightarrow> bool" where
  "printable v = (case jsString v of Inl e \<Rightarrow> False | Inr s \<Rightarrow> True)"

definition fieldsOf :: "jsval \<Rightarrow> (string \<times> jsval) list" where
  "fieldsOf row = (case row of JObj kvs \<Rightarrow> kvs | _ \<Rightarrow> [])"

definition plainRow :: "jsval \<Rightarrow> bool" where
  "plainRow row =
     (case row of
        JObj kvs \<Rightarrow> recordRow kvs \<and> list_all printable (map snd kvs)
      | _ \<Rightarrow> False)"

text \<open>
  The cell of a row under the \<open>i\<close>-th declared header, by the Column Accessor; its text;
  and its number, by the Numeric Normalizer.
\<close>

definition cell :: "jsval \<Rightarrow> string list \<Rightarrow> nat \<Rightarrow> jsval" where
  "cell row headers i = valueFor (fieldsOf row) (headers ! i) i"

definition textOf :: "jsval \<Rightarrow> string" where
  "textOf v = (case cellText v of Inl e \<Rightarrow> [] | Inr s \<Rightarrow> s)"

definition numberOf :: "jsval \<Rightarrow> jsnum" where
  "numberOf v = (case normalizeNumber v of Inl e \<Rightarrow> NaN | Inr n \<Rightarrow> n)"

text \<open>
  Chart derivation in the spec's words: the value column is the first column after the
  label column in which some row holds a number; the pairs are the label and the number
  of each row, without those whose label is empty, whose value is not a number, or whose
  label is an aggregate marker.
\<close>

definition numericColumn :: "string list \<Rightarrow> jsval list \<Rightarrow> nat \<Rightarrow> bool" where
  "numericColumn headers rows i = list_ex (\<lambda>row. \<not> isNaN (numberOf (cell row headers i))) rows"

definition valueColumn :: "string list \<Rightarrow> jsval list \<Rightarrow> nat option" where
  "valueColumn headers rows = find (numericColumn headers rows) [1..<length headers]"

definition aggregateLabel :: "string \<Rightarrow> bool" where
  "aggregateLabel l =
     (toLowerCase l \<in> set [''total'', ''net surplus / (deficit)'', ''grand total''])"

definition chartPairs :: "string list \<Rightarrow> jsval list \<Rightarrow> nat \<Rightarrow> (string \<times> jsnum) list" where
  "chartPairs headers rows c =
     filter (\<lambda>p. fst p \<noteq> [] \<and> \<not> isNaN (snd p) \<and> \<not> aggregateLabel (fst p))
       (map (\<lambda>row. (textOf (cell row headers 0), numberOf (cell row headers c))) rows)"

definition allZero :: "(string \<times> jsnum) list \<Rightarrow> bool" where
  "allZero pairs = list_all (\<lambda>p. snd p = Fin 0) pairs"

definition chartOf ::
  "FormField \<Rightarrow> FormSection \<Rightarrow> nat \<Rightarrow> string list \<Rightarrow> jsval list \<Rightarrow> ResolvedSlide option" where
  "chartOf field section fieldIndex headers rows =
     (case valueColumn headers rows of
        None \<Rightarrow> None
      | Some c \<Rightarrow>
          if chartPairs headers rows c = [] \<or> allZero (chartPairs headers rows c) then None
          else Some (chartSlide field section fieldIndex (chartPairs headers rows c)))"

definition tableText :: "string list \<Rightarrow> jsval list \<Rightarrow> string list list" where
  "tableText headers rows =
     map (\<lambda>row. map (\<lambda>i. textOf (cell row headers i)) [0..<length headers]) rows"

text \<open>
  The KPI of a table in the claim's words: the first row whose first cell contains
  \<^verbatim>\<open>total\<close>, \<^verbatim>\<open>surplus\<close> or \<^verbatim>\<open>deficit\<close> in any case, and in that row the first column
  after the first whose cell is a number.
\<close>

definition totalLabel :: "string \<Rightarrow> bool" where
  "totalLabel s =
     (str_includes (toLowerCase s) ''total'' \<or> str_includes (toLowerCase s) ''surplus''
      \<or> str_includes (toLowerCase s) ''deficit'')"

definition kpiOfTable :: "string \<Rightarrow> string list \<Rightarrow> jsval list \<Rightarrow> (jsnum \<times> string) list" where
  "kpiOfTable label headers rows =
     (case find (\<lambda>row. totalLabel (textOf (cell row headers 0))) rows of
        None \<Rightarrow> []
      | Some row \<Rightarrow>
          (case find (\<lambda>i. \<not> isNaN (numberOf (cell row headers i))) [1..<length headers] of
             None \<Rightarrow> []
           | Some i \<Rightarrow> [(numberOf (cell row headers i), strOr label (headers ! i))]))"

text \<open>The photos stored in the rows of a table, in row order, without the falsy ones.\<close>

definition storedPhotos :: "jsval list \<Rightarrow> jsval list" where
  "storedPhotos rows =
     filter truthy
       (concat (map (\<lambda>row. (let v = jsOr (propOf row ''photos'') (JArr [])
                            in if isArray v then elems v else [v])) rows))"

text \<open>The slides of one table field that holds the rows \<open>rows\<close> under the columns \<open>headers\<close>.\<close>

definition tableFieldBlock ::
  "FormSection \<Rightarrow> nat \<Rightarrow> FormField \<Rightarrow> string list \<Rightarrow> jsval list \<Rightarrow> ResolvedSlide list" where
  "tableFieldBlock section fieldIndex field headers rows =
     tableSlide section field fieldIndex headers (tableText headers rows)
     # optionList (chartOf field section fieldIndex headers rows)
     @ photoPages (section_id section @ ''-table-photos-'' @ showNat fieldIndex)
         (strOr (field_label field) (section_title section) @ '' - Photos'')
         (storedPhotos rows) 0"

section \<open>Concrete inputs\<close>

text \<open>
  The end-to-end scenario of the spec: a \<^verbatim>\<open>header\<close> section and a \<^verbatim>\<open>financial\<close> section
  with one table field, columns \<^verbatim>\<open>["Item", "Amount"]\<close>; the template's key, name and
  title are left open.
\<close>

definition scenarioTemplate :: "string \<Rightarrow> string \<Rightarrow> string \<Rightarrow> ReportTemplate" where
  "scenarioTemplate k n t =
     \<lparr>template_key = k, template_name = n, template_title = t,
      template_sections =
        [\<lparr>section_id = ''header'', section_title = ''Report Header'',
          section_fields =
            [\<lparr>field_id = ''quarter'', field_label = ''Quarter'', field_type = TEXT,
              field_columns = None\<rparr>,
             \<lparr>field_id = ''preparedBy'', field_label = ''Prepared By'', field_type = TEXT,
              field_columns = None\<rparr>]\<rparr>,
         \<lparr>section_id = ''financial'', section_title = ''Financial Summary'',
          section_fields =
            [\<lparr>field_id = ''incomeTable'', field_label = ''Income'', field_type = TABLE,
              field_columns = Some [''Item'', ''Amount'']\<rparr>]\<rparr>]\<rparr>"

definition scenarioData :: jsval where
  "scenarioData =
     JObj [(''header'', JObj [(''quarter'', JStr ''Q1 2025''),
                             (''preparedBy'', JStr ''Jane Doe'')]),
           (''financial'',
            JObj [(''incomeTable'',
                   JArr [JObj [(''Item'', JStr ''Offerings''), (''Amount'', JStr ''$1,200'')],
                         JObj [(''Item'', JStr ''Total''), (''Amount'', JStr ''$1,200'')]])])]"

text \<open>A table field whose column list is empty, with one stored row.\<close>

definition emptyColumnsSection :: FormSection where
  "emptyColumnsSection =
     \<lparr>section_id = ''s'', section_title = ''S'',
      section_fields =
        [\<lparr>field_id = ''tbl'', field_label = ''L'', field_type = TABLE,
          field_columns = Some []\<rparr>]\<rparr>"

definition emptyColumnsTemplate :: ReportTemplate where
  "emptyColumnsTemplate =
     \<lparr>template_key = ''t'', template_name = ''T'', template_title = ''T'',
      template_sections = [emptyColumnsSection]\<rparr>"

definition emptyColumnsData :: jsval where
  "emptyColumnsData = JObj [(''s'', JObj [(''tbl'', JArr [JObj [(''a'', JStr ''1'')]])])]"

text \<open>Tables that hold one \<^verbatim>\<open>Total\<close> row each: every table field gives one KPI.\<close>

definition totalsField :: "string \<Rightarrow> string \<Rightarrow> FormField" where
  "totalsField fid lbl =
     \<lparr>field_id = fid, field_label = lbl, field_type = TABLE,
      field_columns = Some [''Item'', ''Amount'']\<rparr>"

definition totalsTemplate :: "FormField list \<Rightarrow> ReportTemplate" where
  "totalsTemplate fs =
     \<lparr>template_key = ''k'', template_name = ''N'', template_title = ''T'',
      template_sections =
        [\<lparr>section_id = ''fin'', section_title = ''Totals'', section_fields = fs\<rparr>]\<rparr>"

definition totalsRow :: "string \<Rightarrow> jsval" where
  "totalsRow amount = JArr [JObj [(''Item'', JStr ''Total''), (''Amount'', JStr amount)]]"

definition totalsData :: jsval where
  "totalsData =
     JObj [(''fin'',
            JObj [(''a'', totalsRow ''1''), (''b'', totalsRow ''2''), (''c'', totalsRow ''3''),
                  (''d'', totalsRow ''4''), (''e'', totalsRow ''5'')])]"

definition fiveTotals :: ReportTemplate where
  "fiveTotals =
     totalsTemplate [totalsField ''a'' ''A'', totalsField ''b'' ''B'', totalsField ''c'' ''C'',
                     totalsField ''d'' ''D'', totalsField ''e'' ''E'']"

definition twoTotals :: ReportTemplate where
  "twoTotals = totalsTemplate [totalsField ''a'' ''A'', totalsField ''b'' ''B'']"

text \<open>A photo-collection field with nine images.\<close>

definition nineImages :: "jsval list" where
  "nineImages = map JStr [''a'', ''b'', ''c'', ''d'', ''e'', ''f'', ''g'', ''h'', ''i'']"

definition photoSection :: FormSection where
  "photoSection =
     \<lparr>section_id = ''gallery'', section_title = ''Gallery'',
      section_fields =
        [\<lparr>field_id = ''pics'', field_label = ''Pics'', field_type = PHOTOS,
          field_columns = None\<rparr>]\<rparr>"

definition photoTemplate :: ReportTemplate where
  "photoTemplate =
     \<lparr>template_key = ''p'', template_name = ''P'', template_title = ''P'',
      template_sections = [photoSection]\<rparr>"

definition photoData :: jsval where
  "photoData = JObj [(''gallery'', JObj [(''pics'', JArr nineImages)])]"

text \<open>The table of the end-to-end scenario, and a table with two total rows.\<close>

definition incomeField :: FormField where
  "incomeField =
     \<lparr>field_id = ''incomeTable'', field_label = ''Income'', field_type = TABLE,
      field_columns = Some [''Item'', ''Amount'']\<rparr>"

definition financialSection :: FormSection where
  "financialSection =
     \<lparr>section_id = ''financial'', section_title = ''Financial Summary'',
      section_fields = [incomeField]\<rparr>"

definition incomeRows :: "jsval list" where
  "incomeRows =
     [JObj [(''Item'', JStr ''Offerings''), (''Amount'', JStr ''$1,200'')],
      JObj [(''Item'', JStr ''Total''), (''Amount'', JStr ''$1,200'')]]"

definition budgetField :: FormField where
  "budgetField =
     \<lparr>field_id = ''budget'', field_label = ''Budget'', field_type = TABLE,
      field_columns = Some [''Item'', ''Q1'', ''Q2'', ''Q3'']\<rparr>"

definition budgetRows :: "jsval list" where
  "budgetRows =
     [JObj [(''Item'', JStr ''Tithe''), (''Q1'', JStr ''10''), (''Q2'', JStr ''20''),
            (''Q3'', JStr ''30'')],
      JObj [(''Item'', JStr ''Sub Total''), (''Q1'', JStr ''n/a''), (''Q2'', JStr ''30''),
            (''Q3'', JStr ''40'')],
      JObj [(''Item'', JStr ''Grand Total''), (''Q1'', JStr ''99''), (''Q2'', JStr ''98''),
            (''Q3'', JStr ''97'')]]"

text \<open>
  The scenario's form with an income table in which no row is entered, and an income
  table whose only amount underflows to 0.
\<close>

definition emptyTableData :: jsval where
  "emptyTableData = JObj [(''financial'', JObj [(''incomeTable'', JArr [])])]"

definition tinyRows :: "jsval list" where
  "tinyRows = [JObj [(''Item'', JStr ''a''), (''Amount'', JStr ''1e-400'')]]"

section \<open>Properties of the Numeric Normalizer\<close>

lemma filter_dropWhile_reject:
  "(\<And>x. Q x \<Longrightarrow> \<not> P x) \<Longrightarrow> filter P (dropWhile Q xs) = filter P xs"
  by (induction xs) auto

lemma filter_trim:
  assumes r: "\<And>x. isWhiteSpace x \<Longrightarrow> \<not> P x"
  shows "filter P (trim s) = filter P s"
proof -
  have "filter P (trim s) =
        rev (filter P (dropWhile isWhiteSpace (rev (dropWhile isWhiteSpace s))))"
    by (simp add: trim_def rev_filter)
  also have "\<dots> = rev (filter P (rev (dropWhile isWhiteSpace s)))"
    using r by (simp add: filter_dropWhile_reject)
  also have "\<dots> = filter P (dropWhile isWhiteSpace s)"
    by (simp add: rev_filter)
  also have "\<dots> = filter P s"
    using r by (simp add: filter_dropWhile_reject)
  finally show ?thesis .
qed

lemma cleaned_stripped: "cleaned str = stripped str"
  by (auto simp: cleaned_def stripped_def intro: filter_cong)

lemma cleaned_trim: "cleaned (trim s) = stripped s"
  unfolding cleaned_stripped by (simp add: stripped_def filter_trim)

lemma normalizeNumber_string:
  "\<not> isNullish v \<Longrightarrow> jsString v = Inr s \<Longrightarrow>
   normalizeNumber v =
     Inr (if wrappedInParens (trim s) then negAbs (parseFloat (stripped s))
          else parseFloat (stripped s))"
  by (simp add: normalizeNumber_def cleaned_trim Let_def)

lemma dropWhile_all: "list_all P xs \<Longrightarrow> dropWhile P (xs @ ys) = dropWhile P ys"
  by (induction xs) auto

lemma trim_wrapped:
  assumes "list_all isWhiteSpace ws1" "list_all isWhiteSpace ws2"
  shows "trim (ws1 @ ''('' @ inner @ '')'' @ ws2) = ''('' @ inner @ '')''"
proof -
  have np: "\<not> isWhiteSpace CHR ''(''" "\<not> isWhiteSpace CHR '')''"
    by (simp_all add: isWhiteSpace_def)
  have "dropWhile isWhiteSpace (ws1 @ ''('' @ inner @ '')'' @ ws2) = ''('' @ inner @ '')'' @ ws2"
    using assms(1) np by (simp add: dropWhile_all)
  moreover have "dropWhile isWhiteSpace (rev (''('' @ inner @ '')'' @ ws2))
                 = rev (''('' @ inner @ '')'')"
  proof -
    have "list_all isWhiteSpace (rev ws2)"
      using assms(2) by (simp add: list_all_iff)
    then have "dropWhile isWhiteSpace (rev ws2 @ rev (''('' @ inner @ '')''))
               = dropWhile isWhiteSpace (rev (''('' @ inner @ '')''))"
      by (rule dropWhile_all)
    then show ?thesis using np by simp
  qed
  ultimately show ?thesis by (simp add: trim_def)
qed

lemma wrapped_parens:
  "wrappedInParens (''('' @ inner @ '')'') = (\<not> list_ex isLineTerminator inner)"
  by (simp add: wrappedInParens_def filter_empty_conv list_ex_iff)

lemma stripped_wrapped:
  assumes "list_all isWhiteSpace ws1" "list_all isWhiteSpace ws2"
  shows "stripped (ws1 @ ''('' @ inner @ '')'' @ ws2) = stripped inner"
proof -
  have "filter (\<lambda>c. c \<notin> set ''$,()'' \<and> \<not> isWhiteSpace c) ws1 = []"
       "filter (\<lambda>c. c \<notin> set ''$,()'' \<and> \<not> isWhiteSpace c) ws2 = []"
    using assms by (auto simp: filter_empty_conv list_all_iff)
  then show ?thesis by (simp add: stripped_def)
qed

lemma normalizeNumber_wrapped:
  assumes "list_all isWhiteSpace ws1" "list_all isWhiteSpace ws2"
    and "\<not> list_ex isLineTerminator inner"
  shows "normalizeNumber (JStr (ws1 @ ''('' @ inner @ '')'' @ ws2))
         = Inr (negAbs (parseFloat (stripped inner)))"
proof -
  let ?S = "ws1 @ ''('' @ inner @ '')'' @ ws2"
  have n: "normalizeNumber (JStr ?S) =
           Inr (if wrappedInParens (trim ?S) then negAbs (parseFloat (stripped ?S))
                else parseFloat (stripped ?S))"
    by (rule normalizeNumber_string) (simp_all add: isNullish_def)
  have t: "trim ?S = ''('' @ inner @ '')''"
    by (rule trim_wrapped [OF assms(1,2)])
  have s: "stripped ?S = stripped inner"
    by (rule stripped_wrapped [OF assms(1,2)])
  have w: "wrappedInParens (trim ?S)"
    unfolding t using assms(3) wrapped_parens by blast
  show ?thesis
    unfolding n using w s by simp
qed

lemmas eval_defs =
  normalizeNumber_def isNullish_def trim_def isWhiteSpace_def wrappedInParens_def cleaned_def
  parseFloat_def toDouble_def roundHalfEven_def binaryExponent_def pow2_def log2floor.simps
  startsWith_def isDigit_def digitsValue_def digitVal_def
  exponentPart_def isLineTerminator_def stripped_def

lemma normalizeNumber_line_terminator:
  assumes "list_all isWhiteSpace ws1" "list_all isWhiteSpace ws2"
    and "list_ex isLineTerminator inner"
  shows "normalizeNumber (JStr (ws1 @ ''('' @ inner @ '')'' @ ws2))
         = Inr (parseFloat (stripped inner))"
proof -
  let ?S = "ws1 @ ''('' @ inner @ '')'' @ ws2"
  have n: "normalizeNumber (JStr ?S) =
           Inr (if wrappedInParens (trim ?S) then negAbs (parseFloat (stripped ?S))
                else parseFloat (stripped ?S))"
    by (rule normalizeNumber_string) (simp_all add: isNullish_def)
  have t: "trim ?S = ''('' @ inner @ '')''"
    by (rule trim_wrapped [OF assms(1,2)])
  have s: "stripped ?S = stripped inner"
    by (rule stripped_wrapped [OF assms(1,2)])
  have w: "\<not> wrappedInParens (trim ?S)"
    unfolding t using assms(3) wrapped_parens by blast
  show ?thesis
    unfolding n using w s by simp
qed

text \<open>
  The Numeric Normalizer: \<^verbatim>\<open>null\<close> and \<^verbatim>\<open>undefined\<close> give \<^verbatim>\<open>NaN\<close>; any other value is
  printed, and the result is the number parsed from the print with \<open>$\<close>, commas, white
  space and parentheses stripped, negated in absolute value when the trimmed print is
  wrapped in parentheses by the test of the code; a print wrapped in parentheses with no
  line break between them (white space around it allowed) gives minus the absolute value
  whatever sign the inside carries, and one with a line break between them gives the
  number parsed as it stands; a stripped print that does not parse gives \<^verbatim>\<open>NaN\<close>; and the
  four values of the spec.
\<close>

lemma normalizeNumber_contract:
  "normalizeNumber JNull = Inr NaN
   \<and> normalizeNumber JUndefined = Inr NaN
   \<and> (\<not> isNullish v \<and> jsString v = Inr s \<longrightarrow>
        normalizeNumber v =
          Inr (if wrappedInParens (trim s) then negAbs (parseFloat (stripped s))
               else parseFloat (stripped s)))
   \<and> (list_all isWhiteSpace ws1 \<and> list_all isWhiteSpace ws2
        \<and> \<not> list_ex isLineTerminator inner \<longrightarrow>
        normalizeNumber (JStr (ws1 @ ''('' @ inner @ '')'' @ ws2))
          = Inr (negAbs (parseFloat (stripped inner))))
   \<and> (list_all isWhiteSpace ws1 \<and> list_all isWhiteSpace ws2
        \<and> list_ex isLineTerminator inner \<longrightarrow>
        normalizeNumber (JStr (ws1 @ ''('' @ inner @ '')'' @ ws2))
          = Inr (parseFloat (stripped inner)))
   \<and> (\<not> isNullish v \<and> jsString v = Inr s \<and> parseFloat (stripped s) = NaN \<longrightarrow>
        normalizeNumber v = Inr NaN)
   \<and> normalizeNumber (JStr ''(1,234.50)'') = Inr (Fin (- 1234.50))
   \<and> normalizeNumber (JStr ''$500'') = Inr (Fin 500)
   \<and> normalizeNumber (JStr '''') = Inr NaN
   \<and> normalizeNumber (JStr ''(-5)'') = Inr (Fin (- 5))
   \<and> normalizeNumber (JStr ''(+5)'') = Inr (Fin (- 5))"
proof -
  have a: "normalizeNumber JNull = Inr NaN" "normalizeNumber JUndefined = Inr NaN"
    by (simp_all add: normalizeNumber_def isNullish_def)
  have b: "\<not> isNullish v \<and> jsString v = Inr s \<longrightarrow>
        normalizeNumber v =
          Inr (if wrappedInParens (trim s) then negAbs (parseFloat (stripped s))
               else parseFloat (stripped s))"
    using normalizeNumber_string by blast
  have c: "list_all isWhiteSpace ws1 \<and> list_all isWhiteSpace ws2
        \<and> \<not> list_ex isLineTerminator inner \<longrightarrow>
        normalizeNumber (JStr (ws1 @ ''('' @ inner @ '')'' @ ws2))
          = Inr (negAbs (parseFloat (stripped inner)))"
    using normalizeNumber_wrapped by blast
  have c': "list_all isWhiteSpace ws1 \<and> list_all isWhiteSpace ws2
        \<and> list_ex isLineTerminator inner \<longrightarrow>
        normalizeNumber (JStr (ws1 @ ''('' @ inner @ '')'' @ ws2))
          = Inr (parseFloat (stripped inner))"
    using normalizeNumber_line_terminator by blast
  have d: "\<not> isNullish v \<and> jsString v = Inr s \<and> parseFloat (stripped s) = NaN \<longrightarrow>
        normalizeNumber v = Inr NaN"
    by (simp add: normalizeNumber_string)
  have e1: "normalizeNumber (JStr ''(1,234.50)'') = Inr (Fin (- 1234.50))"
    by (simp add: eval_defs Let_def)
  have e2: "normalizeNumber (JStr ''$500'') = Inr (Fin 500)"
    by (simp add: eval_defs Let_def)
  have e3: "normalizeNumber (JStr '''') = Inr NaN"
    by (simp add: eval_defs Let_def)
  have e4: "normalizeNumber (JStr ''(-5)'') = Inr (Fin (- 5))"
    by (simp add: eval_defs Let_def)
  have e5: "normalizeNumber (JStr ''(+5)'') = Inr (Fin (- 5))"
    by (simp add: eval_defs Let_def)
  from a b c c' d e1 e2 e3 e4 e5 show ?thesis by blast
qed

lemma normalizeNumber_contract_examples:
  "\<not> isNullish (JStr ''abc'') \<and> jsString (JStr ''abc'') = Inr ''abc''
   \<and> parseFloat (stripped ''abc'') = NaN
   \<and> normalizeNumber (JStr ''abc'') = Inr NaN
   \<and> list_all isWhiteSpace '' '' \<and> list_all isWhiteSpace []
   \<and> \<not> list_ex isLineTerminator ''$12''
   \<and> normalizeNumber (JStr ('' '' @ ''('' @ ''$12'' @ '')'' @ [])) = Inr (Fin (- 12))"
proof -
  have h1: "\<not> isNullish (JStr ''abc'')"
    by (simp add: isNullish_def)
  have h2: "jsString (JStr ''abc'') = Inr ''abc''"
    by simp
  have h3: "parseFloat (stripped ''abc'') = NaN"
    by (simp add: stripped_def isWhiteSpace_def parseFloat_def startsWith_def isDigit_def)
  have h4: "list_all isWhiteSpace '' ''" "list_all isWhiteSpace []"
    by (simp_all add: isWhiteSpace_def)
  have h5: "\<not> list_ex isLineTerminator ''$12''"
    by (simp add: isLineTerminator_def)
  have v: "negAbs (parseFloat (stripped ''$12'')) = Fin (- 12)"
    by (simp add: eval_defs Let_def)
  note t = normalizeNumber_contract [of "JStr ''abc''" "''abc''" "'' ''" "[]" "''$12''"]
  from t h1 h2 h3 have c1: "normalizeNumber (JStr ''abc'') = Inr NaN"
    by blast
  from t h4 h5 have "normalizeNumber (JStr ('' '' @ ''('' @ ''$12'' @ '')'' @ []))
      = Inr (negAbs (parseFloat (stripped ''$12'')))"
    by blast
  then have c2: "normalizeNumber (JStr ('' '' @ ''('' @ ''$12'' @ '')'' @ [])) = Inr (Fin (- 12))"
    by (simp only: v)
  from h1 h2 h3 h4 h5 c1 c2 show ?thesis by blast
qed

text \<open>
  \<^verbatim>\<open>parseFloat\<close> rounds to a double: a literal too small for a subnormal gives 0, one too
  large gives \<^verbatim>\<open>Infinity\<close>, \<^verbatim>\<open>0.1\<close> gives the double nearest to one tenth, and
  \<open>2 ^ 53 + 1\<close>, half way between two doubles, gives the even one.
\<close>

lemma parseFloat_underflow: "parseFloat ''1e-400'' = Fin 0"
  by (simp add: eval_defs Let_def)

lemma parseFloat_overflow: "parseFloat ''1e400'' = PosInfinity"
  by (simp add: eval_defs Let_def)

lemma parseFloat_tenth: "parseFloat ''0.1'' = Fin (3602879701896397 / 2 ^ 55)"
  by (simp add: eval_defs Let_def)

lemma parseFloat_tie: "parseFloat ''9007199254740993'' = Fin 9007199254740992"
  by (simp add: eval_defs Let_def)

text \<open>
  C5. A value wrapped in parentheses that holds a line break, \<^verbatim>\<open>"(1\n2)"\<close>: its first
  character is \<open>(\<close>, its last is \<open>)\<close>, and the cleaning step, for which a line break is
  white space, leaves \<^verbatim>\<open>12\<close>, as it does for \<^verbatim>\<open>"(12)"\<close>. The claim gives the negation of
  the absolute value of the number parsed from the cleaned string, \<open>- 12\<close>; so do the
  comments of \<^verbatim>\<open>normalizeNumber\<close> (\<^verbatim>\<open>Check if wrapped in parentheses\<close>,
  \<^verbatim>\<open>Apply negative sign if parentheses were present\<close>). The code returns \<open>12\<close>: the dot of
  \<^verbatim>\<open>/^\(.*\)$/\<close> matches no line terminator, so that the test fails on this value, while
  \<^verbatim>\<open>"(12)"\<close> gives \<open>- 12\<close>.
\<close>

theorem normalizeNumber_line_break:
  "hd (trim ''(1\<newline>2)'') = CHR ''(''
   \<and> last (trim ''(1\<newline>2)'') = CHR '')''
   \<and> \<not> wrappedInParens (trim ''(1\<newline>2)'')
   \<and> cleaned (trim ''(1\<newline>2)'') = ''12''
   \<and> cleaned (trim ''(12)'') = ''12''
   \<and> normalizeNumber (JStr ''(1\<newline>2)'') = Inr (Fin 12)
   \<and> normalizeNumber (JStr ''(12)'') = Inr (Fin (- 12))"
proof -
  have a: "hd (trim ''(1\<newline>2)'') = CHR ''(''" "last (trim ''(1\<newline>2)'') = CHR '')''"
    by (simp_all add: trim_def isWhiteSpace_def)
  have b: "\<not> wrappedInParens (trim ''(1\<newline>2)'')"
    by (simp add: trim_def isWhiteSpace_def wrappedInParens_def isLineTerminator_def)
  have c: "cleaned (trim ''(1\<newline>2)'') = ''12''" "cleaned (trim ''(12)'') = ''12''"
    by (simp_all add: trim_def isWhiteSpace_def cleaned_def)
  have d: "normalizeNumber (JStr ''(1\<newline>2)'') = Inr (Fin 12)"
    by (simp add: eval_defs Let_def)
  have e: "normalizeNumber (JStr ''(12)'') = Inr (Fin (- 12))"
    by (simp add: eval_defs Let_def)
  from a b c d e show ?thesis by blast
qed

section \<open>Properties of the Column Accessor\<close>

lemma bindE_Inl [simp]: "bindE (Inl e) f = Inl e"
  by (simp add: bindE_def)

lemma bindE_Inr [simp]: "bindE (Inr x) f = f x"
  by (simp add: bindE_def)

lemma bindE_eq_Inr: "bindE m f = Inr y \<longleftrightarrow> (\<exists>x. m = Inr x \<and> f x = Inr y)"
  by (cases m) auto

lemma toLowerCase_Nil [simp]: "toLowerCase s = [] \<longleftrightarrow> s = []"
  by (simp add: toLowerCase_def)

lemma find_map_fst:
  "find P (map fst kvs) = map_option fst (find (\<lambda>kv. P (fst kv)) kvs)"
  by (induction kvs) auto

lemma find_in_set: "find P xs = Some x \<Longrightarrow> x \<in> set xs \<and> P x"
  by (induction xs) (auto split: if_splits)

lemma map_of_distinct_member:
  "distinct (map fst kvs) \<Longrightarrow> kv \<in> set kvs \<Longrightarrow> map_of kvs (fst kv) = Some (snd kv)"
  by (cases kv) simp

lemma dataKeys_obj:
  "dataKeys (JObj kvs) = map fst (filter (\<lambda>kv. fst kv \<noteq> ''photos'' \<and> fst kv \<noteq> ''tooltips'') kvs)"
  by (induction kvs) (auto simp: dataKeys_def)

lemma positional_obj:
  assumes "distinct (map fst kvs)" "i < length (dataKeys (JObj kvs))"
  shows "propOf (JObj kvs) (dataKeys (JObj kvs) ! i) = the (positionalTier kvs i)"
proof -
  let ?r = "filter (\<lambda>kv. fst kv \<noteq> ''photos'' \<and> fst kv \<noteq> ''tooltips'') kvs"
  have l: "i < length ?r" using assms(2) by (simp add: dataKeys_obj)
  then have "?r ! i \<in> set kvs" using nth_mem [of i ?r] by auto
  then have "map_of kvs (fst (?r ! i)) = Some (snd (?r ! i))"
    using assms(1) by (rule map_of_distinct_member[rotated])
  then show ?thesis using l by (simp add: dataKeys_obj positionalTier_def nth_opt_def)
qed

lemma positional_none:
  "\<not> i < length (dataKeys (JObj kvs)) \<Longrightarrow> positionalTier kvs i = None"
  by (simp add: dataKeys_obj positionalTier_def nth_opt_def)

lemma positional_some:
  "i < length (dataKeys (JObj kvs)) \<Longrightarrow> positionalTier kvs i \<noteq> None"
  by (simp add: dataKeys_obj positionalTier_def nth_opt_def)

lemma getColumnValueRaw_record:
  assumes "recordRow kvs"
  shows "getColumnValueRaw (JObj kvs) (Some h) i = Inr (valueFor kvs h i)"
proof -
  have d: "distinct (map fst kvs)" and nh: "''hasOwnProperty'' \<notin> set (map fst kvs)"
    using assms by (simp_all add: recordRow_def)
  show ?thesis
  proof (cases "map_of kvs h")
    case (Some v)
    then have "h \<in> set (map fst kvs)" by (metis map_of_eq_None_iff option.distinct(1) set_map)
    then show ?thesis using Some nh
      by (simp add: getColumnValueRaw_def valueFor_def exactTier_def)
  next
    case None
    then have nin: "h \<notin> set (map fst kvs)" by (simp add: map_of_eq_None_iff)
    show ?thesis
    proof (cases "find (\<lambda>kv. toLowerCase (fst kv) = toLowerCase h) kvs")
      case fNone: None
      show ?thesis
      proof (cases "i < length (dataKeys (JObj kvs))")
        case True
        then show ?thesis using None nin nh fNone positional_obj[OF d True] positional_some[OF True]
          by (auto simp add: getColumnValueRaw_def valueFor_def exactTier_def foldTier_def find_map_fst)
      next
        case False
        then show ?thesis using None nin nh fNone positional_none[OF False]
          by (simp add: getColumnValueRaw_def valueFor_def exactTier_def foldTier_def find_map_fst)
      qed
    next
      case (Some kv)
      then have m: "kv \<in> set kvs" and e: "toLowerCase (fst kv) = toLowerCase h"
        using find_in_set by fastforce+
      have ne: "fst kv \<noteq> []"
      proof
        assume "fst kv = []"
        then have "h = []" using e by (simp add: toLowerCase_def)
        then show False using nin m \<open>fst kv = []\<close> by force
      qed
      have "map_of kvs (fst kv) = Some (snd kv)" using d m by (rule map_of_distinct_member)
      then show ?thesis using None nin nh Some ne
        by (simp add: getColumnValueRaw_def valueFor_def exactTier_def foldTier_def find_map_fst)
    qed
  qed
qed

lemma cellText_empty: "cellText JNull = Inr []"
  by (simp add: cellText_def nullish_def isNullish_def)

lemma getColumnValue_record:
  assumes "recordRow kvs"
  shows "getColumnValue (JObj kvs) h i = cellText (valueFor kvs h i)"
proof -
  have d: "distinct (map fst kvs)" and nh: "''hasOwnProperty'' \<notin> set (map fst kvs)"
    using assms by (simp_all add: recordRow_def)
  show ?thesis
  proof (cases "map_of kvs h")
    case (Some v)
    then have "h \<in> set (map fst kvs)" by (metis map_of_eq_None_iff option.distinct(1) set_map)
    then show ?thesis using Some nh
      by (simp add: getColumnValue_def valueFor_def exactTier_def)
  next
    case None
    then have nin: "h \<notin> set (map fst kvs)" by (simp add: map_of_eq_None_iff)
    show ?thesis
    proof (cases "find (\<lambda>kv. toLowerCase (fst kv) = toLowerCase h) kvs")
      case fNone: None
      show ?thesis
      proof (cases "i < length (dataKeys (JObj kvs))")
        case True
        then show ?thesis using None nin nh fNone positional_obj[OF d True] positional_some[OF True]
          by (auto simp add: getColumnValue_def valueFor_def exactTier_def foldTier_def find_map_fst)
      next
        case False
        then show ?thesis using None nin nh fNone positional_none[OF False]
          by (simp add: getColumnValue_def valueFor_def exactTier_def foldTier_def find_map_fst cellText_empty)
      qed
    next
      case (Some kv)
      then have m: "kv \<in> set kvs" and e: "toLowerCase (fst kv) = toLowerCase h"
        using find_in_set by fastforce+
      have ne: "fst kv \<noteq> []"
      proof
        assume "fst kv = []"
        then have "h = []" using e by (simp add: toLowerCase_def)
        then show False using nin m \<open>fst kv = []\<close> by force
      qed
      have "map_of kvs (fst kv) = Some (snd kv)" using d m by (rule map_of_distinct_member)
      then show ?thesis using None nin nh Some ne
        by (simp add: getColumnValue_def valueFor_def exactTier_def foldTier_def find_map_fst)
    qed
  qed
qed

lemma showNat_digit: "n < 10 \<Longrightarrow> showNat n = [digitChar n]"
  by (simp add: showNat.simps)

lemmas accessor_defs =
  getColumnValue_def getColumnValueRaw_def toLowerCase_def toLowerChar_def dataKeys_def
  cellText_def nullish_def isNullish_def showInt_def showNat_digit digitChar_def

text \<open>
  C4. Column Accessor tiering: on a row record the accessor returns the value of the
  first applicable tier (exact key, key equal under case folding, position among the
  keys other than \<^verbatim>\<open>photos\<close> and \<^verbatim>\<open>tooltips\<close>, else the empty value); the closure of
  the table slide returns it as text, the closures of the chart and of the summary as
  stored. Row \<^verbatim>\<open>{"Amount": 10}\<close> with header \<^verbatim>\<open>amount\<close> gives 10, and row
  \<^verbatim>\<open>{"col1": "X", "col2": 5}\<close> with headers \<^verbatim>\<open>["Label", "Value"]\<close> gives \<^verbatim>\<open>X\<close> and 5.
\<close>

theorem column_accessor_tiering:
  "(recordRow kvs \<longrightarrow>
      getColumnValue (JObj kvs) h i = cellText (valueFor kvs h i)
      \<and> getColumnValueRaw (JObj kvs) (Some h) i = Inr (valueFor kvs h i))
   \<and> getColumnValueRaw (JObj [(''Amount'', JNum 10)]) (Some ''amount'') 0 = Inr (JNum 10)
   \<and> getColumnValue (JObj [(''Amount'', JNum 10)]) ''amount'' 0 = Inr ''10''
   \<and> getColumnValueRaw (JObj [(''col1'', JStr ''X''), (''col2'', JNum 5)]) (Some ''Label'') 0
       = Inr (JStr ''X'')
   \<and> getColumnValueRaw (JObj [(''col1'', JStr ''X''), (''col2'', JNum 5)]) (Some ''Value'') 1
       = Inr (JNum 5)
   \<and> getColumnValue (JObj [(''col1'', JStr ''X''), (''col2'', JNum 5)]) ''Label'' 0 = Inr ''X''
   \<and> getColumnValue (JObj [(''col1'', JStr ''X''), (''col2'', JNum 5)]) ''Value'' 1 = Inr ''5''"
proof -
  have g: "recordRow kvs \<longrightarrow>
      getColumnValue (JObj kvs) h i = cellText (valueFor kvs h i)
      \<and> getColumnValueRaw (JObj kvs) (Some h) i = Inr (valueFor kvs h i)"
    using getColumnValue_record getColumnValueRaw_record by blast
  have e1: "getColumnValueRaw (JObj [(''Amount'', JNum 10)]) (Some ''amount'') 0 = Inr (JNum 10)"
    by (simp add: accessor_defs)
  have e2: "getColumnValue (JObj [(''Amount'', JNum 10)]) ''amount'' 0 = Inr ''10''"
    by (simp add: accessor_defs showNat.simps [of 10])
  have e3: "getColumnValueRaw (JObj [(''col1'', JStr ''X''), (''col2'', JNum 5)]) (Some ''Label'') 0
       = Inr (JStr ''X'')"
    by (simp add: accessor_defs)
  have e4: "getColumnValueRaw (JObj [(''col1'', JStr ''X''), (''col2'', JNum 5)]) (Some ''Value'') 1
       = Inr (JNum 5)"
    by (simp add: accessor_defs)
  have e5: "getColumnValue (JObj [(''col1'', JStr ''X''), (''col2'', JNum 5)]) ''Label'' 0 = Inr ''X''"
    by (simp add: accessor_defs)
  have e6: "getColumnValue (JObj [(''col1'', JStr ''X''), (''col2'', JNum 5)]) ''Value'' 1 = Inr ''5''"
    by (simp add: accessor_defs)
  from g e1 e2 e3 e4 e5 e6 show ?thesis by blast
qed

theorem column_accessor_tiering_witness:
  "recordRow [(''photos'', JArr []), (''Item'', JStr ''Tithe''), (''AMOUNT'', JStr ''7'')]
   \<and> valueFor [(''photos'', JArr []), (''Item'', JStr ''Tithe''), (''AMOUNT'', JStr ''7'')]
        ''Amount'' 5 = JStr ''7''
   \<and> getColumnValue
        (JObj [(''photos'', JArr []), (''Item'', JStr ''Tithe''), (''AMOUNT'', JStr ''7'')])
        ''Amount'' 5 = Inr ''7''
   \<and> getColumnValueRaw
        (JObj [(''photos'', JArr []), (''Item'', JStr ''Tithe''), (''AMOUNT'', JStr ''7'')])
        (Some ''Amount'') 5 = Inr (JStr ''7'')"
proof -
  let ?kvs = "[(''photos'', JArr []), (''Item'', JStr ''Tithe''), (''AMOUNT'', JStr ''7'')]"
  have r: "recordRow ?kvs"
    by (simp add: recordRow_def)
  have v: "valueFor ?kvs ''Amount'' 5 = JStr ''7''"
    by (simp add: valueFor_def exactTier_def foldTier_def toLowerCase_def toLowerChar_def)
  have c: "cellText (JStr ''7'') = Inr ''7''"
    by (simp add: cellText_def nullish_def isNullish_def)
  from column_accessor_tiering [of ?kvs "''Amount''" 5] r
  have "getColumnValue (JObj ?kvs) ''Amount'' 5 = cellText (valueFor ?kvs ''Amount'' 5)"
    and "getColumnValueRaw (JObj ?kvs) (Some ''Amount'') 5 = Inr (valueFor ?kvs ''Amount'' 5)"
    by blast+
  then show ?thesis using r v c by simp
qed

section \<open>Properties of the pagination loop\<close>

lemma pageNum_div: "nat \<lfloor>rat_of_nat i / 4\<rfloor> + 1 = i div 4 + 1"
proof -
  have "\<lfloor>rat_of_nat i / rat_of_nat 4\<rfloor> = int (i div 4)"
    by (rule floor_divide_of_nat_eq)
  then show ?thesis by simp
qed

lemma totalPages_div: "nat \<lceil>rat_of_nat n / 4\<rceil> = (n + 3) div 4"
proof -
  have "\<lceil>rat_of_int (int n) / rat_of_int 4\<rceil> = - (- int n div 4)"
    by (rule ceiling_divide_eq_div)
  moreover have "- (- int n div 4) = int ((n + 3) div 4)"
    by (simp add: zdiv_int)
  ultimately show ?thesis by simp
qed

lemma photoPage_fields:
  "slide_id (photoPage idPrefix titleBase photos (4 * k)) = idPrefix @ ''-page'' @ showNat (k + 1)"
  "slide_title (photoPage idPrefix titleBase photos (4 * k)) =
     titleBase @ (if (length photos + 3) div 4 > 1
                  then '' ('' @ showNat (k + 1) @ ''/'' @ showNat ((length photos + 3) div 4) @ '')''
                  else [])"
  "layout (photoPage idPrefix titleBase photos (4 * k)) = PhotoGrid"
  "data (photoPage idPrefix titleBase photos (4 * k)) = ImagesData (take 4 (drop (4 * k) photos))"
  by (simp_all add: photoPage_def pageNum_div totalPages_div Let_def del: One_nat_def)

lemma photoPages_from:
  "i = 4 * j \<Longrightarrow>
   photoPages idPrefix titleBase photos i =
     map (\<lambda>k. photoPage idPrefix titleBase photos (4 * k)) [j..<(length photos + 3) div 4]"
proof (induction idPrefix titleBase photos i arbitrary: j rule: photoPages.induct)
  case (1 idPrefix titleBase photos i)
  have u: "photoPages idPrefix titleBase photos i =
           (if i < length photos
            then photoPage idPrefix titleBase photos i
                 # photoPages idPrefix titleBase photos (i + 4)
            else [])"
    by (rule photoPages.simps)
  show ?case
  proof (cases "i < length photos")
    case True
    then have j: "j < (length photos + 3) div 4"
      using 1(2) by arith
    have "photoPages idPrefix titleBase photos (i + 4) =
          map (\<lambda>k. photoPage idPrefix titleBase photos (4 * k))
            [Suc j..<(length photos + 3) div 4]"
      using 1(1) [OF True, of "Suc j"] 1(2) by simp
    then show ?thesis
      unfolding u using True j 1(2) by (simp add: upt_conv_Cons)
  next
    case False
    then have "(length photos + 3) div 4 \<le> j"
      using 1(2) by arith
    then show ?thesis
      unfolding u using False by simp
  qed
qed

lemma photoPages_0:
  "photoPages idPrefix titleBase photos 0 =
     map (\<lambda>k. photoPage idPrefix titleBase photos (4 * k)) [0..<(length photos + 3) div 4]"
  by (rule photoPages_from) simp

lemma length_photoPages: "length (photoPages idPrefix titleBase photos 0) = (length photos + 3) div 4"
  by (simp add: photoPages_0)

lemma nth_photoPages:
  "k < (length photos + 3) div 4 \<Longrightarrow>
   photoPages idPrefix titleBase photos 0 ! k = photoPage idPrefix titleBase photos (4 * k)"
  by (simp add: photoPages_0)

section \<open>The shape of the output of \<^verbatim>\<open>resolve\<close>\<close>

lemma concatMapE_all:
  assumes "\<And>x ys. x \<in> set xs \<Longrightarrow> f x = Inr ys \<Longrightarrow> list_all P ys"
    and "concatMapE f xs = Inr zs"
  shows "list_all P zs"
  using assms
proof (induction xs arbitrary: zs)
  case Nil
  then show ?case by simp
next
  case (Cons x xs)
  from Cons.prems(2) obtain ys ws where fx: "f x = Inr ys"
    and r: "concatMapE f xs = Inr ws" and z: "zs = ys @ ws"
    by (auto split: sum.splits)
  have "list_all P ys"
    by (rule Cons.prems(1) [of x]) (simp_all add: fx)
  moreover have "list_all P ws"
  proof (rule Cons.IH [OF _ r])
    fix y ys' assume "y \<in> set xs" "f y = Inr ys'"
    then show "list_all P ys'" using Cons.prems(1) [of y ys'] by simp
  qed
  ultimately show ?case using z by simp
qed

lemma concatMapE_member:
  assumes "concatMapE f xs = Inr zs" "x \<in> set xs"
  shows "\<exists>ys pre post. f x = Inr ys \<and> zs = pre @ ys @ post"
  using assms
proof (induction xs arbitrary: zs)
  case Nil
  then show ?case by simp
next
  case (Cons a xs)
  from Cons.prems(1) obtain ys ws where fa: "f a = Inr ys"
    and r: "concatMapE f xs = Inr ws" and z: "zs = ys @ ws"
    by (auto split: sum.splits)
  show ?case
  proof (cases "x = a")
    case True
    then have "f x = Inr ys \<and> zs = [] @ ys @ ws" using fa z by simp
    then show ?thesis by blast
  next
    case False
    then have "x \<in> set xs" using Cons.prems(2) by simp
    from Cons.IH [OF r this] obtain ys' pre post where
      "f x = Inr ys'" "ws = pre @ ys' @ post" by blast
    then have "f x = Inr ys' \<and> zs = (ys @ pre) @ ys' @ post" using z by simp
    then show ?thesis by blast
  qed
qed

lemma photoPages_layout: "list_all sectionLayout (photoPages idPrefix titleBase photos 0)"
  by (simp add: photoPages_0 list_all_iff sectionLayout_def photoPage_fields)

lemma chart_layout:
  "createChartFromTable field tableData section fieldIndex = Inr (Some c) \<Longrightarrow> sectionLayout c"
  by (auto simp: createChartFromTable_def chartSlide_def sectionLayout_def Let_def
           split: option.splits if_splits sum.splits)

lemma optionList_chart_layout:
  "createChartFromTable field tableData section fieldIndex = Inr chart \<Longrightarrow>
   list_all sectionLayout (optionList chart)"
  by (cases chart) (auto dest: chart_layout)

lemma tableSlide_layout: "sectionLayout (tableSlide section field fieldIndex headers rows)"
  by (simp add: tableSlide_def sectionLayout_def)

lemma photoPages_if:
  "(if length photos > 0 then photoPages idPrefix titleBase photos 0 else [])
   = photoPages idPrefix titleBase photos 0"
  by (simp add: photoPages_0)

lemma bindE_InrE:
  assumes "bindE m f = Inr y"
  obtains x where "m = Inr x" "f x = Inr y"
  using assms by (auto simp: bindE_eq_Inr)

lemma tableFieldSlides_shape:
  assumes "tableFieldSlides section sectionData fi = Inr ss" "ss \<noteq> []"
  shows "\<exists>tableData rows chart photos.
      getProp sectionData (field_id (snd fi)) = Inr (JArr tableData) \<and> tableData \<noteq> []
      \<and> tableRows (case field_columns (snd fi) of Some cs \<Rightarrow> cs | None \<Rightarrow> []) tableData = Inr rows
      \<and> createChartFromTable (snd fi) tableData section (fst fi) = Inr chart
      \<and> tablePhotos tableData = Inr photos
      \<and> ss = tableSlide section (snd fi) (fst fi)
                (case field_columns (snd fi) of Some cs \<Rightarrow> cs | None \<Rightarrow> []) rows
              # optionList chart
              @ photoPages (section_id section @ ''-table-photos-'' @ showNat (fst fi))
                  (strOr (field_label (snd fi)) (section_title section) @ '' - Photos'')
                  photos 0"
proof -
  from assms(1) obtain td where g: "getProp sectionData (field_id (snd fi)) = Inr td"
    and r: "(if \<not> truthy td \<or> \<not> isArray td \<or> length (elems td) = 0 then Inr []
             else bindE (tableRows (case field_columns (snd fi) of Some cs \<Rightarrow> cs | None \<Rightarrow> [])
                           (elems td))
                    (\<lambda>rows. bindE (createChartFromTable (snd fi) (elems td) section (fst fi))
                    (\<lambda>chart. bindE (tablePhotos (elems td))
                    (\<lambda>photos. Inr ([tableSlide section (snd fi) (fst fi)
                                      (case field_columns (snd fi) of Some cs \<Rightarrow> cs | None \<Rightarrow> [])
                                      rows]
                                   @ optionList chart
                                   @ photoPages
                                       (section_id section @ ''-table-photos-'' @ showNat (fst fi))
                                       (strOr (field_label (snd fi)) (section_title section)
                                        @ '' - Photos'')
                                       photos 0))))) = Inr ss"
    unfolding tableFieldSlides_def Let_def photoPages_if by (erule bindE_InrE)
  from r assms(2) have a: "isArray td" "elems td \<noteq> []"
    by (auto split: if_splits)
  then obtain tableData where td: "td = JArr tableData" "tableData \<noteq> []"
    by (cases td) auto
  from r a td obtain rows chart photos where
    "tableRows (case field_columns (snd fi) of Some cs \<Rightarrow> cs | None \<Rightarrow> []) tableData = Inr rows"
    "createChartFromTable (snd fi) tableData section (fst fi) = Inr chart"
    "tablePhotos tableData = Inr photos"
    "ss = tableSlide section (snd fi) (fst fi)
                (case field_columns (snd fi) of Some cs \<Rightarrow> cs | None \<Rightarrow> []) rows
              # optionList chart
              @ photoPages (section_id section @ ''-table-photos-'' @ showNat (fst fi))
                  (strOr (field_label (snd fi)) (section_title section) @ '' - Photos'')
                  photos 0"
    by (auto elim!: bindE_InrE)
  then show ?thesis using g td by blast
qed

lemma tableFieldSlides_layout:
  assumes "tableFieldSlides section sectionData fi = Inr ss"
  shows "list_all sectionLayout ss"
proof (cases "ss = []")
  case True
  then show ?thesis by simp
next
  case False
  from tableFieldSlides_shape [OF assms False] obtain tableData rows chart photos where
    c: "createChartFromTable (snd fi) tableData section (fst fi) = Inr chart"
    and ss: "ss = tableSlide section (snd fi) (fst fi)
                (case field_columns (snd fi) of Some cs \<Rightarrow> cs | None \<Rightarrow> []) rows
              # optionList chart
              @ photoPages (section_id section @ ''-table-photos-'' @ showNat (fst fi))
                  (strOr (field_label (snd fi)) (section_title section) @ '' - Photos'')
                  photos 0"
    by blast
  show ?thesis
    unfolding ss using optionList_chart_layout [OF c]
    by (simp add: tableSlide_layout photoPages_layout)
qed

lemma bulletFieldSlides_layout:
  "bulletFieldSlides section sectionData fi = Inr ss \<Longrightarrow> list_all sectionLayout ss"
  by (auto simp: bulletFieldSlides_def Let_def bindE_eq_Inr sectionLayout_def split: if_splits)

lemma photoFieldSlides_layout:
  "photoFieldSlides section sectionData fi = Inr ss \<Longrightarrow> list_all sectionLayout ss"
  by (auto simp: photoFieldSlides_def Let_def bindE_eq_Inr photoPages_layout split: if_splits)

lemma textSlides_layout:
  "textSlides section sectionData fs = Inr ss \<Longrightarrow> list_all sectionLayout ss"
  by (auto simp: textSlides_def Let_def bindE_eq_Inr sectionLayout_def split: if_splits)

lemma createSlidesForSection_layout:
  assumes "createSlidesForSection formData section sectionIndex = Inr ss"
  shows "list_all sectionLayout ss"
proof -
  from assms obtain sd s1 s2 s3 s4 where
    "concatMapE (tableFieldSlides section sd)
       (enumerate 0 (filter (\<lambda>f. field_type f = TABLE) (section_fields section))) = Inr s1"
    "concatMapE (bulletFieldSlides section sd)
       (enumerate 0 (filter (\<lambda>f. field_type f = BULLET) (section_fields section))) = Inr s2"
    "concatMapE (photoFieldSlides section sd)
       (enumerate 0 (filter (\<lambda>f. field_type f = PHOTOS) (section_fields section))) = Inr s3"
    "textSlides section sd
       (filter (\<lambda>f. field_type f \<in> set [TEXT, TEXTAREA, NUMBER, DATE]) (section_fields section))
       = Inr s4"
    and ss: "ss = s1 @ s2 @ s3 @ s4"
    unfolding createSlidesForSection_def Let_def bindE_eq_Inr by auto
  then have "list_all sectionLayout s1" "list_all sectionLayout s2"
    "list_all sectionLayout s3" "list_all sectionLayout s4"
    using concatMapE_all [of _ "tableFieldSlides section sd" sectionLayout s1]
      concatMapE_all [of _ "bulletFieldSlides section sd" sectionLayout s2]
      concatMapE_all [of _ "photoFieldSlides section sd" sectionLayout s3]
      tableFieldSlides_layout bulletFieldSlides_layout photoFieldSlides_layout textSlides_layout
    by blast+
  then show ?thesis using ss by simp
qed

lemma sectionStep_layout:
  "sectionStep formData si = Inr ss \<Longrightarrow> list_all sectionLayout ss"
  by (auto simp: sectionStep_def Let_def dest: createSlidesForSection_layout split: if_splits)

lemma sections_layout:
  "concatMapE (sectionStep formData) xs = Inr ss \<Longrightarrow> list_all sectionLayout ss"
  using concatMapE_all [of xs "sectionStep formData" sectionLayout ss] sectionStep_layout
  by blast

lemma createTitleSlide_Some:
  "createTitleSlide template formData = Inr r \<Longrightarrow>
   \<exists>ts. r = Some ts \<and> layout ts = Title \<and> slide_title ts = template_title template
        \<and> slide_id ts = ''title-'' @ template_key template"
  by (auto simp: createTitleSlide_def bindE_eq_Inr Let_def)

lemma resolve_shape:
  assumes "resolve template formData = Inr slides"
  shows "\<exists>ts ss kpis.
           createTitleSlide template formData = Inr (Some ts)
           \<and> concatMapE (sectionStep formData) (enumerate 0 (template_sections template)) = Inr ss
           \<and> collectKpis template formData = Inr kpis
           \<and> slides = ts # ss @ (if 2 \<le> length kpis \<and> length kpis \<le> 4
                                 then [summarySlide template kpis] else [])"
proof -
  from assms obtain r ss sm where
    t: "createTitleSlide template formData = Inr r"
    and s: "concatMapE (sectionStep formData) (enumerate 0 (template_sections template)) = Inr ss"
    and m: "createSummarySlide template formData = Inr sm"
    and sl: "slides = optionList r @ ss @ optionList sm @ optionList createPhotoGridSlide"
    unfolding resolve_def bindE_eq_Inr by auto
  from t obtain ts where r: "r = Some ts" using createTitleSlide_Some by blast
  from m obtain kpis where k: "collectKpis template formData = Inr kpis"
    and sm: "sm = (if 2 \<le> length kpis \<and> length kpis \<le> 4
                   then Some (summarySlide template kpis) else None)"
    unfolding createSummarySlide_def bindE_eq_Inr by (auto split: if_splits)
  have "slides = ts # ss @ (if 2 \<le> length kpis \<and> length kpis \<le> 4
                            then [summarySlide template kpis] else [])"
    using sl r sm by (simp add: createPhotoGridSlide_def)
  then show ?thesis using t r s k by blast
qed

section \<open>Evaluation on the concrete inputs\<close>

lemmas resolve_defs =
  resolve_def createTitleSlide_def sectionDataOf_def getProp_def jsOr_def sectionStep_def
  createSlidesForSection_def tableFieldSlides_def bulletFieldSlides_def photoFieldSlides_def
  textSlides_def textEntry_def tableRows_def tablePhotos_def rowPhotos_def tableSlide_def
  createChartFromTable_def hasNumeric_def isNumericCell_def chartItem_def keepChartItem_def
  chartSlide_def createSummarySlide_def collectKpis_def sectionKpis_def reservedSection_def
  fieldKpis_def isTotalRow_def summarySlide_def createPhotoGridSlide_def
  getIconPromptForSection_def strOr_def nth_opt_def isNaN_def

lemmas totals_defs =
  totalsField_def totalsTemplate_def totalsRow_def totalsData_def fiveTotals_def twoTotals_def

lemma slidesOf_layouts:
  "map_sum id (map layout) r = Inr ls \<Longrightarrow> r = Inr (slidesOf r) \<and> map layout (slidesOf r) = ls"
  by (cases r) (auto simp: slidesOf_def)

lemma scenario_resolve:
  "resolve (scenarioTemplate k n t) scenarioData =
     Inr [\<lparr>slide_id = ''title-'' @ k, slide_title = t, layout = Title,
           data = TitleData (JStr ''Q1 2025'') (JStr ''Jane Doe''),
           originalLayout = \<lparr>generativeIconPrompt = None, suggestedChart = None\<rparr>\<rparr>,
          \<lparr>slide_id = ''financial-table-0'', slide_title = ''Income'', layout = TwoColumn,
           data = TableData [''Item'', ''Amount'']
                    [[''Offerings'', ''$1,200''], [''Total'', ''$1,200'']],
           originalLayout =
             \<lparr>generativeIconPrompt =
                Some ''A clean, modern icon representing financial data and monetary transactions'',
              suggestedChart = None\<rparr>\<rparr>,
          \<lparr>slide_id = ''financial-chart-0'', slide_title = ''Income - Chart'',
           layout = ChartFull,
           data = ChartData Pie [''Offerings''] [Fin 1200],
           originalLayout =
             \<lparr>generativeIconPrompt = Some ''A pie chart icon representing data visualization'',
              suggestedChart = Some (Pie, ''$.financial.incomeTable'')\<rparr>\<rparr>]"
  by (simp add: scenarioTemplate_def scenarioData_def resolve_defs accessor_defs eval_defs
        Let_def photoPages_0)

lemma scenario_kpis:
  "collectKpis (scenarioTemplate k n t) scenarioData = Inr [(Fin 1200, ''Income'')]"
  by (simp add: scenarioTemplate_def scenarioData_def resolve_defs accessor_defs eval_defs Let_def)

lemma fiveTotals_kpis:
  "collectKpis fiveTotals totalsData =
     Inr [(Fin 1, ''A''), (Fin 2, ''B''), (Fin 3, ''C''), (Fin 4, ''D''), (Fin 5, ''E'')]"
  by (simp add: totals_defs resolve_defs accessor_defs eval_defs Let_def)

lemma fiveTotals_layouts:
  "map_sum id (map layout) (resolve fiveTotals totalsData) =
     Inr [Title, TwoColumn, TwoColumn, TwoColumn, TwoColumn, TwoColumn]"
  by (simp add: totals_defs resolve_defs accessor_defs eval_defs Let_def photoPages_0)

lemma twoTotals_kpis:
  "collectKpis twoTotals totalsData = Inr [(Fin 1, ''A''), (Fin 2, ''B'')]"
  by (simp add: totals_defs resolve_defs accessor_defs eval_defs Let_def)

lemma twoTotals_layouts:
  "map_sum id (map layout) (resolve twoTotals totalsData) =
     Inr [Title, TwoColumn, TwoColumn, Summary]"
  by (simp add: totals_defs resolve_defs accessor_defs eval_defs Let_def photoPages_0)

section \<open>Executive-summary gating\<close>

lemma summarySlide_fields:
  "layout (summarySlide template kpis) = Summary"
  "data (summarySlide template kpis) = KpisData (take 4 kpis)"
  by (simp_all add: summarySlide_def)

lemma sectionLayout_noSummary: "list_all sectionLayout ss \<Longrightarrow> noSummary ss"
  by (auto simp: noSummary_def sectionLayout_def list_all_iff)

lemma resolve_summary:
  assumes "resolve template formData = Inr slides"
    and "collectKpis template formData = Inr kpis"
  shows "(2 \<le> length kpis \<and> length kpis \<le> 4 \<longrightarrow>
            (\<exists>front. slides = front @ [summarySlide template kpis] \<and> noSummary front))
         \<and> (length kpis < 2 \<or> 4 < length kpis \<longrightarrow> noSummary slides)"
proof -
  from resolve_shape [OF assms(1)] obtain ts ss kpis' where
    t: "createTitleSlide template formData = Inr (Some ts)"
    and s: "concatMapE (sectionStep formData) (enumerate 0 (template_sections template)) = Inr ss"
    and k: "collectKpis template formData = Inr kpis'"
    and sl: "slides = ts # ss @ (if 2 \<le> length kpis' \<and> length kpis' \<le> 4
                                 then [summarySlide template kpis'] else [])"
    by blast
  have kk: "kpis' = kpis" using k assms(2) by simp
  have "layout ts = Title" using createTitleSlide_Some [OF t] by auto
  moreover have "noSummary ss" using sections_layout [OF s] by (rule sectionLayout_noSummary)
  ultimately have f: "noSummary (ts # ss)" by (simp add: noSummary_def)
  show ?thesis
  proof (cases "2 \<le> length kpis \<and> length kpis \<le> 4")
    case True
    then have "slides = (ts # ss) @ [summarySlide template kpis]" using sl kk by simp
    then show ?thesis using f True by auto
  next
    case False
    then have "slides = ts # ss" using sl kk by auto
    then show ?thesis using f False by auto
  qed
qed

text \<open>
  C1, as the claim states it, fails where five KPIs are collected: the template
  \<open>fiveTotals\<close> has five table fields with one \<^verbatim>\<open>Total\<close> row each, the scan collects
  five KPIs, and \<^verbatim>\<open>resolve\<close> returns the title slide and the five table slides, with no
  summary slide.
\<close>

theorem summary_truncation_counterexample:
  "collectKpis fiveTotals totalsData =
     Inr [(Fin 1, ''A''), (Fin 2, ''B''), (Fin 3, ''C''), (Fin 4, ''D''), (Fin 5, ''E'')]
   \<and> map_sum id (map layout) (resolve fiveTotals totalsData) =
     Inr [Title, TwoColumn, TwoColumn, TwoColumn, TwoColumn, TwoColumn]"
  using fiveTotals_kpis fiveTotals_layouts by simp

text \<open>
  C1, amended. Whenever \<^verbatim>\<open>resolve\<close> returns and the scan has collected \<open>kpis\<close>: with
  fewer than two KPIs (so with exactly one) no slide has the summary layout; with two to
  four the last slide is the summary slide, it carries all of them, and no other slide
  has the summary layout; with five or more no slide has the summary layout.
\<close>

theorem summary_slide_gating:
  assumes "resolve template formData = Inr slides"
    and "collectKpis template formData = Inr kpis"
  shows "(length kpis < 2 \<longrightarrow> noSummary slides)
         \<and> (2 \<le> length kpis \<and> length kpis \<le> 4 \<longrightarrow>
              (\<exists>front. slides = front @ [summarySlide template kpis] \<and> noSummary front)
              \<and> layout (summarySlide template kpis) = Summary
              \<and> data (summarySlide template kpis) = KpisData kpis)
         \<and> (5 \<le> length kpis \<longrightarrow> noSummary slides)"
  using resolve_summary [OF assms] by (auto simp: summarySlide_fields)

theorem summary_slide_gating_witness:
  "resolve twoTotals totalsData = Inr (slidesOf (resolve twoTotals totalsData))
   \<and> collectKpis twoTotals totalsData = Inr [(Fin 1, ''A''), (Fin 2, ''B'')]
   \<and> last (slidesOf (resolve twoTotals totalsData))
       = summarySlide twoTotals [(Fin 1, ''A''), (Fin 2, ''B'')]
   \<and> data (summarySlide twoTotals [(Fin 1, ''A''), (Fin 2, ''B'')])
       = KpisData [(Fin 1, ''A''), (Fin 2, ''B'')]
   \<and> resolve fiveTotals totalsData = Inr (slidesOf (resolve fiveTotals totalsData))
   \<and> collectKpis fiveTotals totalsData =
       Inr [(Fin 1, ''A''), (Fin 2, ''B''), (Fin 3, ''C''), (Fin 4, ''D''), (Fin 5, ''E'')]
   \<and> noSummary (slidesOf (resolve fiveTotals totalsData))
   \<and> resolve (scenarioTemplate ''k'' ''n'' ''t'') scenarioData
       = Inr (slidesOf (resolve (scenarioTemplate ''k'' ''n'' ''t'') scenarioData))
   \<and> collectKpis (scenarioTemplate ''k'' ''n'' ''t'') scenarioData = Inr [(Fin 1200, ''Income'')]
   \<and> noSummary (slidesOf (resolve (scenarioTemplate ''k'' ''n'' ''t'') scenarioData))"
proof -
  have r2: "resolve twoTotals totalsData = Inr (slidesOf (resolve twoTotals totalsData))"
    using slidesOf_layouts [OF twoTotals_layouts] by simp
  have r5: "resolve fiveTotals totalsData = Inr (slidesOf (resolve fiveTotals totalsData))"
    using slidesOf_layouts [OF fiveTotals_layouts] by simp
  have r1: "resolve (scenarioTemplate ''k'' ''n'' ''t'') scenarioData
       = Inr (slidesOf (resolve (scenarioTemplate ''k'' ''n'' ''t'') scenarioData))"
    by (simp add: scenario_resolve slidesOf_def)
  from summary_slide_gating [OF r2 twoTotals_kpis]
  have "\<exists>front. slidesOf (resolve twoTotals totalsData)
                 = front @ [summarySlide twoTotals [(Fin 1, ''A''), (Fin 2, ''B'')]]"
    and d2: "data (summarySlide twoTotals [(Fin 1, ''A''), (Fin 2, ''B'')])
             = KpisData [(Fin 1, ''A''), (Fin 2, ''B'')]"
    by auto
  then have l2: "last (slidesOf (resolve twoTotals totalsData))
                 = summarySlide twoTotals [(Fin 1, ''A''), (Fin 2, ''B'')]"
    by auto
  from summary_slide_gating [OF r5 fiveTotals_kpis]
  have n5: "noSummary (slidesOf (resolve fiveTotals totalsData))"
    by simp
  from summary_slide_gating [OF r1 scenario_kpis]
  have n1: "noSummary (slidesOf (resolve (scenarioTemplate ''k'' ''n'' ''t'') scenarioData))"
    by simp
  from r2 twoTotals_kpis l2 d2 r5 fiveTotals_kpis n5 r1 scenario_kpis n1
  show ?thesis by blast
qed

section \<open>An empty column list\<close>

text \<open>
  C2. With a table field whose column list is empty and a stored row, the table slide is
  built and \<^verbatim>\<open>createChartFromTable\<close> returns \<^verbatim>\<open>null\<close> (it tests
  \<^verbatim>\<open>field.columns.length < 2\<close>), but \<^verbatim>\<open>createSummarySlide\<close> only tests that
  \<^verbatim>\<open>field.columns\<close> is truthy: it reads \<^verbatim>\<open>headers[0]\<close>, which is \<^verbatim>\<open>undefined\<close>, and
  \<^verbatim>\<open>undefined.toLowerCase()\<close> throws, so \<^verbatim>\<open>resolve\<close> throws a \<^verbatim>\<open>TypeError\<close>.
\<close>

theorem empty_columns_throws:
  "createSlidesForSection emptyColumnsData emptyColumnsSection 0 =
     Inr [tableSlide emptyColumnsSection (hd (section_fields emptyColumnsSection)) 0 [] [[]]]
   \<and> createChartFromTable (hd (section_fields emptyColumnsSection))
        [JObj [(''a'', JStr ''1'')]] emptyColumnsSection 0 = Inr None
   \<and> createSummarySlide emptyColumnsTemplate emptyColumnsData = Inl TypeError
   \<and> resolve emptyColumnsTemplate emptyColumnsData = Inl TypeError"
  by (simp add: emptyColumnsTemplate_def emptyColumnsSection_def emptyColumnsData_def
        resolve_defs accessor_defs Let_def photoPages_0)

text \<open>
  A stored row that is \<^verbatim>\<open>null\<close> throws as well, in the table slide
  (\<^verbatim>\<open>row.hasOwnProperty\<close>) and in the photo scan (\<^verbatim>\<open>row.photos\<close>).
\<close>

lemma null_row_throws:
  "tableRows [''Item''] [JNull] = Inl TypeError \<and> tablePhotos [JNull] = Inl TypeError"
  by (simp add: tableRows_def tablePhotos_def rowPhotos_def getColumnValue_def getProp_def
        isNullish_def)

section \<open>The end-to-end scenario\<close>

text \<open>
  C3, as the claim states it, fails: on the scenario's input \<^verbatim>\<open>resolve\<close> returns three
  slides, and the third is a chart slide.
\<close>

theorem scenario_chart_counterexample:
  "map_sum id (map layout)
     (resolve (scenarioTemplate ''treasury'' ''Treasury'' ''Treasury Quarterly Report'')
        scenarioData)
   = Inr [Title, TwoColumn, ChartFull]"
  by (simp add: scenario_resolve)

text \<open>
  C3, amended. On the scenario's input \<^verbatim>\<open>resolve\<close> returns exactly the title slide
  (title the template's title, subtitle \<^verbatim>\<open>Q1 2025\<close>, author \<^verbatim>\<open>Jane Doe\<close>), the two-column
  table slide with both rows, and a pie chart slide with the one point
  \<^verbatim>\<open>(Offerings, 1200)\<close>: the \<^verbatim>\<open>Total\<close> row is left out of the chart and the \<^verbatim>\<open>Offerings\<close>
  row remains. There is no summary slide, the \<^verbatim>\<open>Total\<close> row giving the only KPI.
\<close>

theorem scenario_end_to_end:
  "resolve (scenarioTemplate k n t) scenarioData =
     Inr [\<lparr>slide_id = ''title-'' @ k, slide_title = t, layout = Title,
           data = TitleData (JStr ''Q1 2025'') (JStr ''Jane Doe''),
           originalLayout = \<lparr>generativeIconPrompt = None, suggestedChart = None\<rparr>\<rparr>,
          \<lparr>slide_id = ''financial-table-0'', slide_title = ''Income'', layout = TwoColumn,
           data = TableData [''Item'', ''Amount'']
                    [[''Offerings'', ''$1,200''], [''Total'', ''$1,200'']],
           originalLayout =
             \<lparr>generativeIconPrompt =
                Some ''A clean, modern icon representing financial data and monetary transactions'',
              suggestedChart = None\<rparr>\<rparr>,
          \<lparr>slide_id = ''financial-chart-0'', slide_title = ''Income - Chart'',
           layout = ChartFull,
           data = ChartData Pie [''Offerings''] [Fin 1200],
           originalLayout =
             \<lparr>generativeIconPrompt = Some ''A pie chart icon representing data visualization'',
              suggestedChart = Some (Pie, ''$.financial.incomeTable'')\<rparr>\<rparr>]
   \<and> collectKpis (scenarioTemplate k n t) scenarioData = Inr [(Fin 1200, ''Income'')]"
  using scenario_resolve scenario_kpis by simp

theorem scenario_end_to_end_witness:
  "map (\<lambda>s. (slide_id s, slide_title s))
     (slidesOf (resolve (scenarioTemplate ''treasury'' ''Treasury'' ''Q Report'') scenarioData))
   = [(''title-treasury'', ''Q Report''), (''financial-table-0'', ''Income''),
      (''financial-chart-0'', ''Income - Chart'')]"
  using scenario_end_to_end [of "''treasury''" "''Treasury''" "''Q Report''"]
  by (simp add: slidesOf_def)

section \<open>Photo pagination\<close>

lemma createSlidesForSection_shape:
  assumes "createSlidesForSection formData section sectionIndex = Inr ys"
  shows "\<exists>sd s1 s2 s3 s4.
      sectionDataOf formData (section_id section) = Inr sd
      \<and> concatMapE (tableFieldSlides section sd) (enumerate 0 (tablesOf section)) = Inr s1
      \<and> concatMapE (bulletFieldSlides section sd)
            (enumerate 0 (filter (\<lambda>f. field_type f = BULLET) (section_fields section))) = Inr s2
      \<and> concatMapE (photoFieldSlides section sd) (enumerate 0 (photosOf section)) = Inr s3
      \<and> textSlides section sd
            (filter (\<lambda>f. field_type f \<in> set [TEXT, TEXTAREA, NUMBER, DATE])
               (section_fields section)) = Inr s4
      \<and> ys = s1 @ s2 @ s3 @ s4"
  using assms
  unfolding createSlidesForSection_def Let_def tablesOf_def photosOf_def
  by (elim bindE_InrE) auto

lemma resolve_section:
  assumes "resolve template formData = Inr slides"
    and "section \<in> set (template_sections template)"
    and "\<not> reservedSection section"
  shows "\<exists>sd s1 s2 s3 s4 pre post.
      sectionDataOf formData (section_id section) = Inr sd
      \<and> concatMapE (tableFieldSlides section sd) (enumerate 0 (tablesOf section)) = Inr s1
      \<and> concatMapE (photoFieldSlides section sd) (enumerate 0 (photosOf section)) = Inr s3
      \<and> slides = pre @ (s1 @ s2 @ s3 @ s4) @ post"
proof -
  from resolve_shape [OF assms(1)] obtain ts ss kpis where
    s: "concatMapE (sectionStep formData) (enumerate 0 (template_sections template)) = Inr ss"
    and sl: "slides = ts # ss @ (if 2 \<le> length kpis \<and> length kpis \<le> 4
                                 then [summarySlide template kpis] else [])"
    by blast
  from assms(2) obtain i where "i < length (template_sections template)"
    "template_sections template ! i = section"
    by (auto simp: in_set_conv_nth)
  then have "(i, section) \<in> set (enumerate 0 (template_sections template))"
    by (simp add: in_set_enumerate_eq)
  from concatMapE_member [OF s this] obtain ys pre post where
    st: "sectionStep formData (i, section) = Inr ys" and ss: "ss = pre @ ys @ post"
    by blast
  have "createSlidesForSection formData section i = Inr ys"
    using st assms(3) by (simp add: sectionStep_def reservedSection_def Let_def split: if_splits)
  from createSlidesForSection_shape [OF this] obtain sd s1 s2 s3 s4 where
    p: "sectionDataOf formData (section_id section) = Inr sd"
       "concatMapE (tableFieldSlides section sd) (enumerate 0 (tablesOf section)) = Inr s1"
       "concatMapE (photoFieldSlides section sd) (enumerate 0 (photosOf section)) = Inr s3"
    and ys: "ys = s1 @ s2 @ s3 @ s4"
    by blast
  have "slides = (ts # pre) @ (s1 @ s2 @ s3 @ s4) @
          (post @ (if 2 \<le> length kpis \<and> length kpis \<le> 4
                   then [summarySlide template kpis] else []))"
    using sl ss ys by simp
  then show ?thesis using p by blast
qed

lemma photoFieldSlides_pages:
  assumes "getProp sectionData (field_id field) = Inr (JArr imgs)" and "imgs \<noteq> []"
  shows "photoFieldSlides section sectionData (fieldIndex, field)
         = Inr (photoFieldPages section fieldIndex field imgs)"
  using assms by (simp add: photoFieldSlides_def photoFieldPages_def Let_def)

lemma photoFieldPages_length:
  "length (photoFieldPages section fieldIndex field imgs) = nat \<lceil>rat_of_nat (length imgs) / 4\<rceil>"
  by (simp add: photoFieldPages_def length_photoPages totalPages_div)

lemma photoFieldPages_nth:
  assumes "k < length (photoFieldPages section fieldIndex field imgs)"
  shows "layout (photoFieldPages section fieldIndex field imgs ! k) = PhotoGrid"
    and "data (photoFieldPages section fieldIndex field imgs ! k)
         = ImagesData (take 4 (drop (4 * k) imgs))"
    and "slide_title (photoFieldPages section fieldIndex field imgs ! k)
         = strOr (field_label field) (section_title section)
           @ (if length (photoFieldPages section fieldIndex field imgs) > 1
              then '' ('' @ showNat (k + 1) @ ''/''
                   @ showNat (length (photoFieldPages section fieldIndex field imgs)) @ '')''
              else [])"
    and "slide_id (photoFieldPages section fieldIndex field imgs ! k)
         = section_id section @ ''-photos-'' @ showNat fieldIndex @ ''-page'' @ showNat (k + 1)"
proof -
  have k: "k < (length imgs + 3) div 4"
    using assms by (simp add: photoFieldPages_def length_photoPages)
  have n: "photoFieldPages section fieldIndex field imgs ! k
           = photoPage (section_id section @ ''-photos-'' @ showNat fieldIndex)
               (strOr (field_label field) (section_title section)) imgs (4 * k)"
    unfolding photoFieldPages_def by (rule nth_photoPages [OF k])
  have l: "length (photoFieldPages section fieldIndex field imgs) = (length imgs + 3) div 4"
    by (simp add: photoFieldPages_def length_photoPages)
  show "layout (photoFieldPages section fieldIndex field imgs ! k) = PhotoGrid"
    unfolding n by (rule photoPage_fields)
  show "data (photoFieldPages section fieldIndex field imgs ! k)
         = ImagesData (take 4 (drop (4 * k) imgs))"
    unfolding n by (rule photoPage_fields)
  show "slide_title (photoFieldPages section fieldIndex field imgs ! k)
         = strOr (field_label field) (section_title section)
           @ (if length (photoFieldPages section fieldIndex field imgs) > 1
              then '' ('' @ showNat (k + 1) @ ''/''
                   @ showNat (length (photoFieldPages section fieldIndex field imgs)) @ '')''
              else [])"
    unfolding l unfolding n by (rule photoPage_fields)
  show "slide_id (photoFieldPages section fieldIndex field imgs ! k)
         = section_id section @ ''-photos-'' @ showNat fieldIndex @ ''-page'' @ showNat (k + 1)"
    unfolding n by (simp add: photoPage_fields)
qed

lemma resolve_photo_block:
  assumes "resolve template formData = Inr slides"
    and "section \<in> set (template_sections template)"
    and "\<not> reservedSection section"
    and "(fieldIndex, field) \<in> set (enumerate 0 (photosOf section))"
    and "sectionDataOf formData (section_id section) = Inr sectionData"
    and "getProp sectionData (field_id field) = Inr (JArr imgs)" and "imgs \<noteq> []"
  shows "\<exists>pre post. slides = pre @ photoFieldPages section fieldIndex field imgs @ post"
proof -
  from resolve_section [OF assms(1-3)] obtain sd s1 s2 s3 s4 pre post where
    sd: "sectionDataOf formData (section_id section) = Inr sd"
    and s3: "concatMapE (photoFieldSlides section sd) (enumerate 0 (photosOf section)) = Inr s3"
    and sl: "slides = pre @ (s1 @ s2 @ s3 @ s4) @ post"
    by blast
  have e: "sd = sectionData" using sd assms(5) by simp
  from concatMapE_member [OF s3 assms(4)] obtain zs pre' post' where
    z: "photoFieldSlides section sd (fieldIndex, field) = Inr zs" and s3': "s3 = pre' @ zs @ post'"
    by blast
  have "zs = photoFieldPages section fieldIndex field imgs"
    using z photoFieldSlides_pages [OF assms(6,7), of "section" fieldIndex] e by simp
  then have "slides = (pre @ s1 @ s2 @ pre') @ photoFieldPages section fieldIndex field imgs
                      @ (post' @ s4 @ post)"
    using sl s3' by simp
  then show ?thesis by blast
qed

lemma ceil_nine: "nat \<lceil>(9::rat) / 4\<rceil> = 3"
  using totalPages_div [of 9] by simp

lemma nine_pages:
  "map (\<lambda>s. (slide_title s, data s)) (photoFieldPages photoSection 0 (hd (section_fields photoSection)) nineImages)
   = [(''Pics (1/3)'', ImagesData (map JStr [''a'', ''b'', ''c'', ''d''])),
      (''Pics (2/3)'', ImagesData (map JStr [''e'', ''f'', ''g'', ''h''])),
      (''Pics (3/3)'', ImagesData (map JStr [''i'']))]"
  by (simp add: photoFieldPages_def photoSection_def nineImages_def photoPages_0 photoPage_def
      pageNum_div ceil_nine strOr_def showNat_digit digitChar_def upt_rec)

lemma nine_resolve:
  "map_sum id (map (\<lambda>s. (layout s, slide_title s, data s))) (resolve photoTemplate photoData)
   = Inr [(Title, ''P'', TitleData (JStr []) (JStr [])),
      (PhotoGrid, ''Pics (1/3)'', ImagesData (map JStr [''a'', ''b'', ''c'', ''d''])),
      (PhotoGrid, ''Pics (2/3)'', ImagesData (map JStr [''e'', ''f'', ''g'', ''h''])),
      (PhotoGrid, ''Pics (3/3)'', ImagesData (map JStr [''i'']))]"
  by (simp add: photoTemplate_def photoData_def photoSection_def nineImages_def resolve_defs Let_def
       isNullish_def photoPages_0 photoPage_def pageNum_div ceil_nine showNat_digit digitChar_def upt_rec)

text \<open>
  C7. Photo pagination: a photo-collection field that holds the non-empty array \<open>imgs\<close>
  contributes the slides \<open>photoFieldPages\<close>: there are \<open>\<lceil>n / 4\<rceil>\<close> of them for \<open>n\<close> images,
  all photo-grid slides; the slide at position \<open>k\<close> (from 0) carries the images
  \<open>4k + 1\<close> to \<open>min (4k + 4) n\<close> in stored order; its title carries \<open>(k+1/total)\<close> when
  there is more than one page and nothing otherwise; and whenever \<^verbatim>\<open>resolve\<close> returns,
  these slides stand together, in this order, in its output. Nine images give three
  slides of 4, 4 and 1 images, marked (1/3), (2/3), (3/3).
\<close>

theorem photo_pagination:
  assumes "getProp sectionData (field_id field) = Inr (JArr imgs)" and "imgs \<noteq> []"
  shows "photoFieldSlides section sectionData (fieldIndex, field)
           = Inr (photoFieldPages section fieldIndex field imgs)
         \<and> length (photoFieldPages section fieldIndex field imgs)
             = nat \<lceil>rat_of_nat (length imgs) / 4\<rceil>
         \<and> (\<forall>k < length (photoFieldPages section fieldIndex field imgs).
               layout (photoFieldPages section fieldIndex field imgs ! k) = PhotoGrid
               \<and> data (photoFieldPages section fieldIndex field imgs ! k)
                   = ImagesData (take 4 (drop (4 * k) imgs))
               \<and> slide_title (photoFieldPages section fieldIndex field imgs ! k)
                   = strOr (field_label field) (section_title section)
                     @ (if length (photoFieldPages section fieldIndex field imgs) > 1
                        then '' ('' @ showNat (k + 1) @ ''/''
                             @ showNat (length (photoFieldPages section fieldIndex field imgs))
                             @ '')''
                        else []))
         \<and> (resolve template formData = Inr slides
              \<and> section \<in> set (template_sections template) \<and> \<not> reservedSection section
              \<and> (fieldIndex, field) \<in> set (enumerate 0 (photosOf section))
              \<and> sectionDataOf formData (section_id section) = Inr sectionData
              \<longrightarrow> (\<exists>pre post.
                     slides = pre @ photoFieldPages section fieldIndex field imgs @ post))
         \<and> map_sum id (map (\<lambda>s. (layout s, slide_title s, data s)))
               (resolve photoTemplate photoData)
             = Inr [(Title, ''P'', TitleData (JStr []) (JStr [])),
                    (PhotoGrid, ''Pics (1/3)'', ImagesData (map JStr [''a'', ''b'', ''c'', ''d''])),
                    (PhotoGrid, ''Pics (2/3)'', ImagesData (map JStr [''e'', ''f'', ''g'', ''h''])),
                    (PhotoGrid, ''Pics (3/3)'', ImagesData (map JStr [''i'']))]"
proof -
  have a: "photoFieldSlides section sectionData (fieldIndex, field)
           = Inr (photoFieldPages section fieldIndex field imgs)"
    by (rule photoFieldSlides_pages [OF assms])
  have b: "length (photoFieldPages section fieldIndex field imgs)
             = nat \<lceil>rat_of_nat (length imgs) / 4\<rceil>"
    by (rule photoFieldPages_length)
  have c: "\<forall>k < length (photoFieldPages section fieldIndex field imgs).
               layout (photoFieldPages section fieldIndex field imgs ! k) = PhotoGrid
               \<and> data (photoFieldPages section fieldIndex field imgs ! k)
                   = ImagesData (take 4 (drop (4 * k) imgs))
               \<and> slide_title (photoFieldPages section fieldIndex field imgs ! k)
                   = strOr (field_label field) (section_title section)
                     @ (if length (photoFieldPages section fieldIndex field imgs) > 1
                        then '' ('' @ showNat (k + 1) @ ''/''
                             @ showNat (length (photoFieldPages section fieldIndex field imgs))
                             @ '')''
                        else [])"
    using photoFieldPages_nth by blast
  have d: "resolve template formData = Inr slides
              \<and> section \<in> set (template_sections template) \<and> \<not> reservedSection section
              \<and> (fieldIndex, field) \<in> set (enumerate 0 (photosOf section))
              \<and> sectionDataOf formData (section_id section) = Inr sectionData
              \<longrightarrow> (\<exists>pre post.
                     slides = pre @ photoFieldPages section fieldIndex field imgs @ post)"
    using resolve_photo_block assms by blast
  from a b c d nine_resolve show ?thesis by blast
qed

theorem photo_pagination_witness:
  "getProp (JObj [(''pics'', JArr nineImages)]) (field_id (hd (section_fields photoSection)))
     = Inr (JArr nineImages)
   \<and> nineImages \<noteq> []
   \<and> photoFieldSlides photoSection (JObj [(''pics'', JArr nineImages)])
        (0, hd (section_fields photoSection))
       = Inr (photoFieldPages photoSection 0 (hd (section_fields photoSection)) nineImages)
   \<and> length (photoFieldPages photoSection 0 (hd (section_fields photoSection)) nineImages) = 3
   \<and> map (\<lambda>s. (slide_title s, data s))
        (photoFieldPages photoSection 0 (hd (section_fields photoSection)) nineImages)
       = [(''Pics (1/3)'', ImagesData (map JStr [''a'', ''b'', ''c'', ''d''])),
          (''Pics (2/3)'', ImagesData (map JStr [''e'', ''f'', ''g'', ''h''])),
          (''Pics (3/3)'', ImagesData (map JStr [''i'']))]"
proof -
  have g: "getProp (JObj [(''pics'', JArr nineImages)])
             (field_id (hd (section_fields photoSection))) = Inr (JArr nineImages)"
    by (simp add: getProp_def isNullish_def photoSection_def)
  have n: "nineImages \<noteq> []"
    by (simp add: nineImages_def)
  have l: "nat \<lceil>rat_of_nat (length nineImages) / 4\<rceil> = 3"
    using ceil_nine by (simp add: nineImages_def)
  from photo_pagination [OF g n, of photoSection 0]
  have "photoFieldSlides photoSection (JObj [(''pics'', JArr nineImages)])
          (0, hd (section_fields photoSection))
        = Inr (photoFieldPages photoSection 0 (hd (section_fields photoSection)) nineImages)"
    and "length (photoFieldPages photoSection 0 (hd (section_fields photoSection)) nineImages)
         = nat \<lceil>rat_of_nat (length nineImages) / 4\<rceil>"
    by blast+
  then show ?thesis using g n l nine_pages by simp
qed

section \<open>The title slide and the reserved sections\<close>

lemma truthy_not_nullish: "truthy v \<Longrightarrow> \<not> isNullish v"
  by (auto simp: isNullish_def)

lemma jsOr_obj_not_nullish: "\<not> isNullish (jsOr v (JObj []))"
  by (cases "truthy v") (auto simp: jsOr_def isNullish_def)

lemma createTitleSlide_total:
  "\<not> isNullish formData \<Longrightarrow>
   createTitleSlide template formData = Inr (Some (titleSlideOf template formData))"
  by (simp add: createTitleSlide_def sectionDataOf_def getProp_def jsOr_obj_not_nullish
        titleSlideOf_def headerAlias_def Let_def)

lemma createTitleSlide_nullish:
  "isNullish formData \<Longrightarrow> createTitleSlide template formData = Inl TypeError"
  by (simp add: createTitleSlide_def sectionDataOf_def getProp_def)

lemma createTitleSlide_Inr:
  "createTitleSlide template formData = Inr r \<Longrightarrow> r = Some (titleSlideOf template formData)"
  by (cases "isNullish formData") (simp_all add: createTitleSlide_total createTitleSlide_nullish)

lemma sum_case_id: "(case m of Inl e \<Rightarrow> Inl e | Inr zs \<Rightarrow> Inr zs) = m"
  by (cases m) auto

lemma concatMapE_skip:
  assumes "\<And>x. x \<in> set xs \<Longrightarrow> \<not> P x \<Longrightarrow> f x = Inr []"
    and "\<And>x. x \<in> set xs \<Longrightarrow> P x \<Longrightarrow> f x = g x"
  shows "concatMapE f xs = concatMapE g (filter P xs)"
  using assms
proof (induction xs)
  case Nil
  then show ?case by simp
next
  case (Cons a xs)
  have ih: "concatMapE f xs = concatMapE g (filter P xs)"
    using Cons.prems by (intro Cons.IH) auto
  show ?case
  proof (cases "P a")
    case True
    then have "f a = g a" using Cons.prems(2) by simp
    then show ?thesis using True ih by (cases "g a") simp_all
  next
    case False
    then have "f a = Inr []" using Cons.prems(1) by simp
    then show ?thesis using False ih by (cases "concatMapE g (filter P xs)") simp_all
  qed
qed

lemma map_snd_filter_enumerate:
  "map snd (filter (\<lambda>si. Q (snd si)) (enumerate n xs)) = filter Q xs"
  by (induction xs arbitrary: n) auto

lemma sections_skip_reserved:
  "concatMapE (sectionStep formData) (enumerate 0 (template_sections template))
   = concatMapE (\<lambda>si. createSlidesForSection formData (snd si) (fst si))
       (contentSections template)"
  unfolding contentSections_def
  by (rule concatMapE_skip) (auto simp: sectionStep_def reservedSection_def Let_def)

lemma resolve_title_first:
  assumes "resolve template formData = Inr slides"
  shows "\<exists>rest tail.
           concatMapE (\<lambda>si. createSlidesForSection formData (snd si) (fst si))
             (contentSections template) = Inr rest
           \<and> slides = titleSlideOf template formData # rest @ tail
           \<and> (tail = [] \<or> (\<exists>kpis. tail = [summarySlide template kpis]))"
proof -
  from resolve_shape [OF assms] obtain ts ss kpis where
    t: "createTitleSlide template formData = Inr (Some ts)"
    and s: "concatMapE (sectionStep formData) (enumerate 0 (template_sections template)) = Inr ss"
    and sl: "slides = ts # ss @ (if 2 \<le> length kpis \<and> length kpis \<le> 4
                                 then [summarySlide template kpis] else [])"
    by blast
  have "ts = titleSlideOf template formData"
    using createTitleSlide_Inr [OF t] by simp
  moreover have "concatMapE (\<lambda>si. createSlidesForSection formData (snd si) (fst si))
             (contentSections template) = Inr ss"
    using s by (simp add: sections_skip_reserved)
  ultimately show ?thesis using sl by auto
qed

lemma contentSections_sections:
  "map snd (contentSections template)
   = filter (\<lambda>s. section_id s \<noteq> ''header'' \<and> section_id s \<noteq> ''signatures'')
       (template_sections template)"
  using map_snd_filter_enumerate [of "\<lambda>s. \<not> reservedSection s" 0 "template_sections template"]
  by (simp add: contentSections_def reservedSection_def)

lemma titleSlideOf_example:
  "titleSlideOf template (JObj [(''header'', JObj [(''reportingQuarter'', JStr ''Q2''), (''preparedBy'', JStr '''')])])
   = \<lparr>slide_id = ''title-'' @ template_key template, slide_title = template_title template,
      layout = Title, data = TitleData (JStr ''Q2'') (JStr []),
      originalLayout = \<lparr>generativeIconPrompt = None, suggestedChart = None\<rparr>\<rparr>"
  by (simp add: titleSlideOf_def headerAlias_def jsOr_def)

lemma titleSlideOf_empty:
  "titleSlideOf template (JObj [])
   = \<lparr>slide_id = ''title-'' @ template_key template, slide_title = template_title template,
      layout = Title, data = TitleData (JStr []) (JStr []),
      originalLayout = \<lparr>generativeIconPrompt = None, suggestedChart = None\<rparr>\<rparr>"
  by (simp add: titleSlideOf_def headerAlias_def jsOr_def)

text \<open>
  C8. The title slide comes first: on form data that is not \<^verbatim>\<open>null\<close> or \<^verbatim>\<open>undefined\<close>
  \<^verbatim>\<open>createTitleSlide\<close> does not throw and gives \<open>titleSlideOf\<close>, whose title is the
  template's title as it stands and whose subtitle and author are read from the
  \<^verbatim>\<open>header\<close> entry under the aliases \<^verbatim>\<open>quarter\<close>/\<^verbatim>\<open>reportingQuarter\<close> and
  \<^verbatim>\<open>preparedBy\<close>/\<^verbatim>\<open>reportingLeader\<close>, the empty string standing for an absent value; and
  whenever \<^verbatim>\<open>resolve\<close> returns, its output is that slide, then the slides of the sections
  other than \<^verbatim>\<open>header\<close> and \<^verbatim>\<open>signatures\<close> in declared order, then at most the summary
  slide.
\<close>

theorem title_slide_first:
  "(\<not> isNullish formData \<longrightarrow>
      createTitleSlide template formData = Inr (Some (titleSlideOf template formData)))
   \<and> (resolve template formData = Inr slides \<longrightarrow>
        (\<exists>rest tail.
           concatMapE (\<lambda>si. createSlidesForSection formData (snd si) (fst si))
             (contentSections template) = Inr rest
           \<and> slides = titleSlideOf template formData # rest @ tail
           \<and> (tail = [] \<or> (\<exists>kpis. tail = [summarySlide template kpis]))))
   \<and> map snd (contentSections template)
       = filter (\<lambda>s. section_id s \<noteq> ''header'' \<and> section_id s \<noteq> ''signatures'')
           (template_sections template)
   \<and> slide_title (titleSlideOf template formData) = template_title template
   \<and> layout (titleSlideOf template formData) = Title
   \<and> data (titleSlideOf template formData)
       = TitleData (headerAlias formData ''quarter'' ''reportingQuarter'')
           (headerAlias formData ''preparedBy'' ''reportingLeader'')
   \<and> data (titleSlideOf template (JObj [])) = TitleData (JStr []) (JStr [])
   \<and> data (titleSlideOf template
              (JObj [(''header'', JObj [(''reportingQuarter'', JStr ''Q2''),
                                       (''preparedBy'', JStr [])])]))
       = TitleData (JStr ''Q2'') (JStr [])"
proof -
  have a: "\<not> isNullish formData \<longrightarrow>
      createTitleSlide template formData = Inr (Some (titleSlideOf template formData))"
    by (simp add: createTitleSlide_total)
  have b: "resolve template formData = Inr slides \<longrightarrow>
        (\<exists>rest tail.
           concatMapE (\<lambda>si. createSlidesForSection formData (snd si) (fst si))
             (contentSections template) = Inr rest
           \<and> slides = titleSlideOf template formData # rest @ tail
           \<and> (tail = [] \<or> (\<exists>kpis. tail = [summarySlide template kpis])))"
    using resolve_title_first by blast
  have c: "slide_title (titleSlideOf template formData) = template_title template"
    "layout (titleSlideOf template formData) = Title"
    "data (titleSlideOf template formData)
       = TitleData (headerAlias formData ''quarter'' ''reportingQuarter'')
           (headerAlias formData ''preparedBy'' ''reportingLeader'')"
    by (simp_all add: titleSlideOf_def)
  have d: "data (titleSlideOf template (JObj [])) = TitleData (JStr []) (JStr [])"
    by (simp add: titleSlideOf_empty)
  have e: "data (titleSlideOf template
              (JObj [(''header'', JObj [(''reportingQuarter'', JStr ''Q2''),
                                       (''preparedBy'', JStr [])])]))
       = TitleData (JStr ''Q2'') (JStr [])"
    using titleSlideOf_example [of template] by simp
  from a b contentSections_sections c d e show ?thesis by blast
qed

theorem title_slide_first_witness:
  "\<not> isNullish scenarioData
   \<and> createTitleSlide (scenarioTemplate ''k'' ''n'' ''t'') scenarioData
       = Inr (Some (titleSlideOf (scenarioTemplate ''k'' ''n'' ''t'') scenarioData))
   \<and> resolve (scenarioTemplate ''k'' ''n'' ''t'') scenarioData
       = Inr (slidesOf (resolve (scenarioTemplate ''k'' ''n'' ''t'') scenarioData))
   \<and> hd (slidesOf (resolve (scenarioTemplate ''k'' ''n'' ''t'') scenarioData))
       = titleSlideOf (scenarioTemplate ''k'' ''n'' ''t'') scenarioData
   \<and> data (titleSlideOf (scenarioTemplate ''k'' ''n'' ''t'') scenarioData)
       = TitleData (JStr ''Q1 2025'') (JStr ''Jane Doe'')"
proof -
  have n: "\<not> isNullish scenarioData"
    by (simp add: isNullish_def scenarioData_def)
  have r: "resolve (scenarioTemplate ''k'' ''n'' ''t'') scenarioData
       = Inr (slidesOf (resolve (scenarioTemplate ''k'' ''n'' ''t'') scenarioData))"
    by (simp add: scenario_resolve slidesOf_def)
  have d: "data (titleSlideOf (scenarioTemplate ''k'' ''n'' ''t'') scenarioData)
       = TitleData (JStr ''Q1 2025'') (JStr ''Jane Doe'')"
    by (simp add: titleSlideOf_def headerAlias_def jsOr_def scenarioData_def)
  note t = title_slide_first [of scenarioData "scenarioTemplate ''k'' ''n'' ''t''"
      "slidesOf (resolve (scenarioTemplate ''k'' ''n'' ''t'') scenarioData)"]
  from t n have c: "createTitleSlide (scenarioTemplate ''k'' ''n'' ''t'') scenarioData
       = Inr (Some (titleSlideOf (scenarioTemplate ''k'' ''n'' ''t'') scenarioData))"
    by blast
  from t r obtain rest tail where
    "slidesOf (resolve (scenarioTemplate ''k'' ''n'' ''t'') scenarioData)
     = titleSlideOf (scenarioTemplate ''k'' ''n'' ''t'') scenarioData # rest @ tail"
    by blast
  then have h: "hd (slidesOf (resolve (scenarioTemplate ''k'' ''n'' ''t'') scenarioData))
       = titleSlideOf (scenarioTemplate ''k'' ''n'' ''t'') scenarioData"
    by simp
  from n c r h d show ?thesis by blast
qed

section \<open>Tables of row records: charts and KPIs\<close>

lemma someE_total:
  "(\<And>x. x \<in> set xs \<Longrightarrow> f x = Inr (p x)) \<Longrightarrow> someE f xs = Inr (list_ex p xs)"
  by (induction xs) auto

lemma findE_total:
  "(\<And>x. x \<in> set xs \<Longrightarrow> f x = Inr (p x)) \<Longrightarrow> findE f xs = Inr (find p xs)"
  by (induction xs) auto

lemma mapE_total:
  "(\<And>x. x \<in> set xs \<Longrightarrow> f x = Inr (g x)) \<Longrightarrow> mapE f xs = Inr (map g xs)"
  by (induction xs) auto

lemma concatMapE_total:
  "(\<And>x. x \<in> set xs \<Longrightarrow> f x = Inr (g x)) \<Longrightarrow> concatMapE f xs = Inr (concat (map g xs))"
  by (induction xs) auto

lemma printable_JNull: "printable JNull"
  by (simp add: printable_def)

lemma valueFor_cases:
  "valueFor kvs h i = JNull \<or> valueFor kvs h i \<in> snd ` set kvs"
proof -
  have a: "map_of kvs h = Some v \<Longrightarrow> v \<in> snd ` set kvs" for v
    by (metis imageI map_of_SomeD snd_conv)
  have b: "find P kvs = Some kv \<Longrightarrow> snd kv \<in> snd ` set kvs" for P kv
    using find_in_set by fastforce
  have c: "nth_opt (map snd (filter Q kvs)) i = Some v \<Longrightarrow> v \<in> snd ` set kvs" for Q v
    by (auto simp: nth_opt_def split: if_splits) (metis filter_is_subset image_eqI nth_mem subsetD)
  show ?thesis
    unfolding valueFor_def exactTier_def foldTier_def positionalTier_def
    using a b c by (auto split: option.splits)
qed

lemma valueFor_printable:
  "list_all printable (map snd kvs) \<Longrightarrow> printable (valueFor kvs h i)"
  using valueFor_cases [of kvs h i] by (auto simp: printable_JNull list_all_iff)

lemma printable_cellText: "printable v \<Longrightarrow> cellText v = Inr (textOf v)"
  by (auto simp: printable_def textOf_def cellText_def nullish_def split: sum.splits)

lemma printable_normalize: "printable v \<Longrightarrow> normalizeNumber v = Inr (numberOf v)"
  by (auto simp: printable_def numberOf_def normalizeNumber_def Let_def split: sum.splits)

lemma numberOf_nullish: "isNullish v \<Longrightarrow> numberOf v = NaN"
  by (simp add: numberOf_def normalizeNumber_def)

lemma plainRow_obj:
  assumes "plainRow row"
  obtains kvs where "row = JObj kvs" "recordRow kvs" "list_all printable (map snd kvs)"
  using assms by (cases row) (auto simp: plainRow_def)

lemma raw_plain:
  assumes "plainRow row" "i < length headers"
  shows "getColumnValueRaw row (nth_opt headers i) i = Inr (cell row headers i)"
    and "printable (cell row headers i)"
proof -
  from assms(1) obtain kvs where r: "row = JObj kvs" "recordRow kvs"
    "list_all printable (map snd kvs)" by (rule plainRow_obj)
  show "getColumnValueRaw row (nth_opt headers i) i = Inr (cell row headers i)"
    using r assms(2) by (simp add: nth_opt_def getColumnValueRaw_record cell_def fieldsOf_def)
  show "printable (cell row headers i)"
    using r by (simp add: cell_def fieldsOf_def valueFor_printable)
qed

lemma text_plain:
  assumes "plainRow row" "i < length headers"
  shows "getColumnValue row (headers ! i) i = Inr (textOf (cell row headers i))"
proof -
  from assms(1) obtain kvs where r: "row = JObj kvs" "recordRow kvs"
    "list_all printable (map snd kvs)" by (rule plainRow_obj)
  have "printable (valueFor kvs (headers ! i) i)" using r by (simp add: valueFor_printable)
  then show ?thesis
    using r by (simp add: getColumnValue_record cell_def fieldsOf_def printable_cellText)
qed

lemma isNumericCell_printable:
  "printable v \<Longrightarrow> isNumericCell v = Inr (\<not> isNaN (numberOf v))"
  by (simp add: isNumericCell_def printable_normalize numberOf_nullish isNaN_def)

lemma hasNumeric_plain:
  assumes "list_all plainRow rows" "i < length headers"
  shows "hasNumeric headers rows i = Inr (numericColumn headers rows i)"
  unfolding hasNumeric_def numericColumn_def
proof (rule someE_total)
  fix row assume "row \<in> set rows"
  then have p: "plainRow row" using assms(1) by (simp add: list_all_iff)
  show "(case getColumnValueRaw row (nth_opt headers i) i of Inl e \<Rightarrow> Inl e
         | Inr val \<Rightarrow> isNumericCell val) = Inr (\<not> isNaN (numberOf (cell row headers i)))"
    using raw_plain [OF p assms(2)] by (simp add: isNumericCell_printable)
qed

lemma valueColumn_plain:
  assumes "list_all plainRow rows"
  shows "findE (hasNumeric headers rows) [1..<length headers] = Inr (valueColumn headers rows)"
  unfolding valueColumn_def
  by (rule findE_total) (simp add: hasNumeric_plain [OF assms])

lemma valueColumn_plain_Suc:
  assumes "list_all plainRow rows"
  shows "findE (hasNumeric headers rows) [Suc 0..<length headers]
         = Inr (valueColumn headers rows)"
  using valueColumn_plain [OF assms] by simp

lemma valueColumn_bound: "valueColumn headers rows = Some c \<Longrightarrow> 1 \<le> c \<and> c < length headers"
  unfolding valueColumn_def using find_in_set by fastforce

lemma chartItem_plain:
  assumes "plainRow row" "0 < length headers" "c < length headers"
  shows "chartItem headers c row
         = Inr (textOf (cell row headers 0), numberOf (cell row headers c))"
  using raw_plain [OF assms(1,2)] raw_plain [OF assms(1,3)]
  by (simp add: chartItem_def printable_cellText printable_normalize)

lemma keepChartItem_eq:
  "keepChartItem p = (fst p \<noteq> [] \<and> \<not> isNaN (snd p) \<and> \<not> aggregateLabel (fst p))"
  by (auto simp: keepChartItem_def aggregateLabel_def Let_def)

lemma createChartFromTable_plain:
  assumes "field_columns field = Some headers" "2 \<le> length headers" "list_all plainRow rows"
  shows "createChartFromTable field rows section fieldIndex
         = Inr (chartOf field section fieldIndex headers rows)"
proof (cases "valueColumn headers rows")
  case None
  then show ?thesis
    using assms by (simp add: createChartFromTable_def valueColumn_plain_Suc chartOf_def)
next
  case (Some c)
  then have c: "c < length headers" using valueColumn_bound by blast
  have "mapE (chartItem headers c) rows
        = Inr (map (\<lambda>row. (textOf (cell row headers 0), numberOf (cell row headers c))) rows)"
  proof (rule mapE_total)
    fix row assume "row \<in> set rows"
    then have "plainRow row" using assms(3) by (simp add: list_all_iff)
    then show "chartItem headers c row
               = (Inr (textOf (cell row headers 0), numberOf (cell row headers c)))"
      using assms(2) c by (intro chartItem_plain) auto
  qed
  moreover have "filter keepChartItem xs
      = filter (\<lambda>p. fst p \<noteq> [] \<and> \<not> isNaN (snd p) \<and> \<not> aggregateLabel (fst p)) xs" for xs
    by (rule filter_cong) (auto simp: keepChartItem_eq)
  ultimately show ?thesis
    using assms Some
    by (simp add: createChartFromTable_def valueColumn_plain_Suc chartOf_def chartPairs_def
          allZero_def Let_def)
qed

lemma tableRows_plain:
  assumes "list_all plainRow rows"
  shows "tableRows headers rows = Inr (tableText headers rows)"
  unfolding tableRows_def tableText_def
proof (rule mapE_total)
  fix row assume "row \<in> set rows"
  then have p: "plainRow row" using assms by (simp add: list_all_iff)
  have "mapE (\<lambda>(idx, header). getColumnValue row header idx) (enumerate 0 headers)
        = Inr (map (\<lambda>ih. textOf (cell row headers (fst ih))) (enumerate 0 headers))"
  proof (rule mapE_total)
    fix ih assume "ih \<in> set (enumerate 0 headers)"
    then have "fst ih < length headers" "snd ih = headers ! fst ih"
      by (auto simp: in_set_enumerate_eq)
    then show "(case ih of (idx, header) \<Rightarrow> getColumnValue row header idx)
               = Inr (textOf (cell row headers (fst ih)))"
      using text_plain [OF p, of "fst ih" headers] by (cases ih) simp
  qed
  moreover have "map (\<lambda>ih. textOf (cell row headers (fst ih))) (enumerate 0 headers)
                 = map (\<lambda>i. textOf (cell row headers i)) [0..<length headers]"
    by (simp add: enumerate_eq_zip map_fst_zip_take flip: map_map [of "\<lambda>i. textOf (cell row headers i)" fst, unfolded comp_def])
  ultimately show "mapE (\<lambda>(idx, header). getColumnValue row header idx) (enumerate 0 headers)
        = Inr (map (\<lambda>i. textOf (cell row headers i)) [0..<length headers])"
    by simp
qed

lemma plainRow_not_nullish: "plainRow row \<Longrightarrow> \<not> isNullish row"
  by (cases row) (auto simp: plainRow_def isNullish_def)

lemma tablePhotos_plain:
  assumes "list_all plainRow rows"
  shows "tablePhotos rows = Inr (storedPhotos rows)"
proof -
  have "concatMapE rowPhotos rows
        = Inr (concat (map (\<lambda>row. (let v = jsOr (propOf row ''photos'') (JArr [])
                                     in if isArray v then elems v else [v])) rows))"
  proof (rule concatMapE_total)
    fix row assume "row \<in> set rows"
    then have "\<not> isNullish row" using assms plainRow_not_nullish by (auto simp: list_all_iff)
    then show "rowPhotos row = Inr (let v = jsOr (propOf row ''photos'') (JArr [])
                                   in if isArray v then elems v else [v])"
      by (simp add: rowPhotos_def getProp_def Let_def)
  qed
  then show ?thesis by (simp add: tablePhotos_def storedPhotos_def)
qed

lemma photoPages_Nil: "photoPages idPrefix titleBase [] 0 = []"
  by (simp add: photoPages_0)

lemma tableFieldSlides_plain:
  assumes "field_columns field = Some headers" "2 \<le> length headers"
    and "getProp sectionData (field_id field) = Inr (JArr rows)" "rows \<noteq> []"
    and "list_all plainRow rows"
  shows "tableFieldSlides section sectionData (fieldIndex, field)
         = Inr (tableFieldBlock section fieldIndex field headers rows)"
  using assms
  by (simp add: tableFieldSlides_def Let_def tableRows_plain createChartFromTable_plain
        tablePhotos_plain photoPages_Nil tableFieldBlock_def)

lemma chartSlide_fields:
  "layout (chartSlide field section fieldIndex pairs) = ChartFull"
  "data (chartSlide field section fieldIndex pairs)
   = ChartData (if length pairs \<le> 5 then Pie else Bar) (map fst pairs) (map snd pairs)"
  "slide_title (chartSlide field section fieldIndex pairs)
   = strOr (field_label field) (section_title section) @ '' - Chart''"
  by (auto simp: chartSlide_def Let_def)

lemma resolve_table_block:
  assumes "resolve template formData = Inr slides"
    and "section \<in> set (template_sections template)"
    and "\<not> reservedSection section"
    and "(fieldIndex, field) \<in> set (enumerate 0 (tablesOf section))"
    and "sectionDataOf formData (section_id section) = Inr sectionData"
    and "tableFieldSlides section sectionData (fieldIndex, field) = Inr block"
  shows "\<exists>pre post. slides = pre @ block @ post"
proof -
  from resolve_section [OF assms(1-3)] obtain sd s1 s2 s3 s4 pre post where
    sd: "sectionDataOf formData (section_id section) = Inr sd"
    and s1: "concatMapE (tableFieldSlides section sd) (enumerate 0 (tablesOf section)) = Inr s1"
    and sl: "slides = pre @ (s1 @ s2 @ s3 @ s4) @ post"
    by blast
  have e: "sd = sectionData" using sd assms(5) by simp
  from concatMapE_member [OF s1 assms(4)] obtain zs pre' post' where
    z: "tableFieldSlides section sd (fieldIndex, field) = Inr zs" and s1': "s1 = pre' @ zs @ post'"
    by blast
  have "zs = block" using z assms(6) e by simp
  then have "slides = (pre @ pre') @ block @ (post' @ s2 @ s3 @ s4 @ post)"
    using sl s1' by simp
  then show ?thesis by blast
qed

lemma isTotalRow_plain:
  assumes "plainRow row" "0 < length headers"
  shows "isTotalRow headers row = Inr (totalLabel (textOf (cell row headers 0)))"
  using raw_plain [OF assms]
  by (simp add: isTotalRow_def printable_cellText totalLabel_def Let_def)

lemma firstNumeric_plain:
  assumes "plainRow row" "\<And>i. i \<in> set is \<Longrightarrow> i < length headers"
  shows "firstNumeric row headers is
         = Inr (map_option (\<lambda>i. (numberOf (cell row headers i), i))
                  (find (\<lambda>i. \<not> isNaN (numberOf (cell row headers i))) is))"
  using assms(2)
proof (induction "is")
  case Nil
  then show ?case by simp
next
  case (Cons i "is")
  have i: "i < length headers" using Cons.prems by simp
  have ih: "firstNumeric row headers is
         = Inr (map_option (\<lambda>i. (numberOf (cell row headers i), i))
                  (find (\<lambda>i. \<not> isNaN (numberOf (cell row headers i))) is))"
    using Cons.prems by (intro Cons.IH) auto
  show ?case
    using raw_plain [OF assms(1) i] ih by (simp add: printable_normalize)
qed

lemma plainRow_truthy: "plainRow row \<Longrightarrow> truthy row"
  by (cases row) (auto simp: plainRow_def)

lemma fieldKpis_plain:
  assumes "field_type field = TABLE" "field_columns field = Some headers" "headers \<noteq> []"
    and "getProp sectionData (field_id field) = Inr (JArr rows)"
    and "list_all plainRow rows"
  shows "fieldKpis sectionData field = Inr (kpiOfTable (field_label field) headers rows)"
proof -
  have h: "0 < length headers" using assms(3) by simp
  have f: "findE (isTotalRow headers) rows
           = Inr (find (\<lambda>row. totalLabel (textOf (cell row headers 0))) rows)"
  proof (rule findE_total)
    fix row assume "row \<in> set rows"
    then have "plainRow row" using assms(5) by (simp add: list_all_iff)
    then show "isTotalRow headers row = Inr (totalLabel (textOf (cell row headers 0)))"
      using h by (rule isTotalRow_plain)
  qed
  show ?thesis
  proof (cases "find (\<lambda>row. totalLabel (textOf (cell row headers 0))) rows")
    case None
    then show ?thesis
      using assms f by (simp add: fieldKpis_def kpiOfTable_def)
  next
    case (Some row)
    then have "row \<in> set rows" using find_in_set by fastforce
    then have p: "plainRow row" using assms(5) by (simp add: list_all_iff)
    have n: "firstNumeric row headers [Suc 0..<length headers]
         = Inr (map_option (\<lambda>i. (numberOf (cell row headers i), i))
                  (find (\<lambda>i. \<not> isNaN (numberOf (cell row headers i)))
                     [Suc 0..<length headers]))"
      using p by (rule firstNumeric_plain) simp
    show ?thesis
      using assms f Some n plainRow_truthy [OF p]
      by (simp add: fieldKpis_def kpiOfTable_def split: option.splits)
  qed
qed

lemma kpiOfTable_at_most_one: "length (kpiOfTable label headers rows) \<le> 1"
  by (simp add: kpiOfTable_def split: option.splits)

lemma fieldKpis_at_most_one:
  assumes "fieldKpis sectionData field = Inr ks"
  shows "length ks \<le> 1"
proof (cases "field_type field = TABLE")
  case False
  then show ?thesis using assms by (simp add: fieldKpis_def)
next
  case True
  show ?thesis
  proof (cases "field_columns field")
    case None
    then show ?thesis using assms True by (simp add: fieldKpis_def)
  next
    case (Some headers)
    from assms True Some obtain tableData where
      a: "(if \<not> isArray tableData then Inr []
           else bindE (findE (isTotalRow headers) (elems tableData))
                  (\<lambda>found. case found of
                     None \<Rightarrow> Inr []
                   | Some totalRow \<Rightarrow>
                       if truthy totalRow then
                         bindE (firstNumeric totalRow headers [1..<length headers])
                           (\<lambda>r. case r of
                                  None \<Rightarrow> Inr []
                                | Some (numValue, i) \<Rightarrow>
                                    Inr [(numValue, strOr (field_label field) (headers ! i))])
                       else Inr [])) = Inr ks"
      unfolding fieldKpis_def by (auto elim!: bindE_InrE)
    show ?thesis
    proof (cases "isArray tableData")
      case False
      then show ?thesis using a by simp
    next
      case True
      with a obtain found where
        b: "(case found of
               None \<Rightarrow> Inr []
             | Some totalRow \<Rightarrow>
                 if truthy totalRow then
                   bindE (firstNumeric totalRow headers [1..<length headers])
                     (\<lambda>r. case r of
                            None \<Rightarrow> Inr []
                          | Some (numValue, i) \<Rightarrow>
                              Inr [(numValue, strOr (field_label field) (headers ! i))])
                 else Inr []) = Inr ks"
        by (auto elim!: bindE_InrE)
      show ?thesis
      proof (cases found)
        case None
        then show ?thesis using b by simp
      next
        case (Some totalRow)
        show ?thesis
        proof (cases "truthy totalRow")
          case False
          then show ?thesis using b Some by simp
        next
          case True
          with b Some have
            "bindE (firstNumeric totalRow headers [1..<length headers])
               (\<lambda>r. case r of
                      None \<Rightarrow> Inr []
                    | Some (numValue, i) \<Rightarrow>
                        Inr [(numValue, strOr (field_label field) (headers ! i))]) = Inr ks"
            by simp
          then show ?thesis
            by (auto simp: bindE_eq_Inr split: option.splits)
        qed
      qed
    qed
  qed
qed

lemmas table_defs =
  plainRow_def recordRow_def printable_def cell_def fieldsOf_def textOf_def numberOf_def
  valueFor_def exactTier_def foldTier_def positionalTier_def nth_opt_def
  numericColumn_def valueColumn_def aggregateLabel_def chartPairs_def allZero_def
  totalLabel_def kpiOfTable_def isNaN_def strOr_def cellText_def nullish_def
  toLowerCase_def toLowerChar_def

lemma income_plain: "list_all plainRow incomeRows"
  by (simp add: incomeRows_def plainRow_def recordRow_def printable_def)

lemma income_valueColumn: "valueColumn [''Item'', ''Amount''] incomeRows = Some (Suc 0)"
  by (simp add: incomeRows_def table_defs eval_defs Let_def)

lemma income_pairs: "chartPairs [''Item'', ''Amount''] incomeRows (Suc 0) = [(''Offerings'', Fin 1200)]"
  by (simp add: incomeRows_def table_defs eval_defs Let_def)

lemma budget_plain: "list_all plainRow budgetRows"
  by (simp add: budgetRows_def plainRow_def recordRow_def printable_def)

lemma budget_kpi:
  "kpiOfTable ''Budget'' [''Item'', ''Q1'', ''Q2'', ''Q3''] budgetRows = [(Fin 30, ''Budget'')]"
  by (simp add: budgetRows_def table_defs eval_defs Let_def upt_rec)

lemma tableFieldSlides_no_rows:
  assumes "getProp sectionData (field_id field) = Inr stored"
    and "\<not> truthy stored \<or> \<not> isArray stored \<or> elems stored = []"
  shows "tableFieldSlides section sectionData (fieldIndex, field) = Inr []"
  using assms by (auto simp: tableFieldSlides_def Let_def)

lemma tiny_plain: "list_all plainRow tinyRows"
  by (simp add: tinyRows_def plainRow_def recordRow_def printable_def)

lemma tiny_valueColumn: "valueColumn [''Item'', ''Amount''] tinyRows = Some (Suc 0)"
  by (simp add: tinyRows_def table_defs eval_defs Let_def)

lemma tiny_pairs: "chartPairs [''Item'', ''Amount''] tinyRows (Suc 0) = [(''a'', Fin 0)]"
  by (simp add: tinyRows_def table_defs eval_defs Let_def)

lemma tiny_photos: "storedPhotos tinyRows = []"
  by (simp add: tinyRows_def storedPhotos_def jsOr_def)

text \<open>
  C6, as the claim states it, fails on a table in which no row is entered: the field has
  two declared columns and no (label, value) pair remains, for which the claim has the
  two-column table slide emitted without a chart slide; but the guard of line 119
  (\<^verbatim>\<open>tableData.length === 0\<close>) returns before any slide of the field is built, and
  \<^verbatim>\<open>resolve\<close> returns the title slide alone.
\<close>

theorem empty_table_counterexample:
  "field_columns incomeField = Some [''Item'', ''Amount'']
   \<and> chartPairs [''Item'', ''Amount''] [] (Suc 0) = []
   \<and> tableFieldSlides financialSection (JObj [(''incomeTable'', JArr [])]) (0, incomeField)
       = Inr []
   \<and> map_sum id (map layout) (resolve (scenarioTemplate ''k'' ''n'' ''t'') emptyTableData)
       = Inr [Title]"
proof -
  have a: "field_columns incomeField = Some [''Item'', ''Amount'']"
    by (simp add: incomeField_def)
  have b: "chartPairs [''Item'', ''Amount''] [] (Suc 0) = []"
    by (simp add: chartPairs_def)
  have c: "tableFieldSlides financialSection (JObj [(''incomeTable'', JArr [])]) (0, incomeField)
           = Inr []"
    by (simp add: tableFieldSlides_def getProp_def isNullish_def incomeField_def Let_def)
  have d: "map_sum id (map layout) (resolve (scenarioTemplate ''k'' ''n'' ''t'') emptyTableData)
           = Inr [Title]"
    by (simp add: scenarioTemplate_def emptyTableData_def resolve_defs accessor_defs Let_def
          photoPages_0)
  from a b c d show ?thesis by blast
qed

text \<open>
  C6, amended. Chart derivation, for a table field with at least two declared columns.
  A field whose stored table is absent, is not an array or has no row contributes no
  slide. A field whose stored table is a non-empty array of row records contributes the
  two-column table slide, then the chart slide if there is one, then the pages of the
  rows' photos; whenever \<^verbatim>\<open>resolve\<close> returns, these slides stand together, in this order,
  in its output. There is no chart slide when no column after the first holds a number,
  when no (label, value) pair is left by the filter, or when every value left is zero;
  otherwise the chart slide carries the pairs left, as a pie chart for at most 5 pairs
  and as a bar chart for more.
\<close>

theorem chart_derivation:
  assumes "field_columns field = Some headers" and "2 \<le> length headers"
  shows "(getProp sectionData (field_id field) = Inr stored
            \<and> (\<not> truthy stored \<or> \<not> isArray stored \<or> elems stored = []) \<longrightarrow>
            tableFieldSlides section sectionData (fieldIndex, field) = Inr [])
         \<and> (getProp sectionData (field_id field) = Inr (JArr rows) \<and> rows \<noteq> []
              \<and> list_all plainRow rows \<longrightarrow>
              tableFieldSlides section sectionData (fieldIndex, field)
                = Inr (tableFieldBlock section fieldIndex field headers rows)
              \<and> (resolve template formData = Inr slides
                   \<and> section \<in> set (template_sections template) \<and> \<not> reservedSection section
                   \<and> (fieldIndex, field) \<in> set (enumerate 0 (tablesOf section))
                   \<and> sectionDataOf formData (section_id section) = Inr sectionData \<longrightarrow>
                   (\<exists>pre post.
                      slides = pre @ tableFieldBlock section fieldIndex field headers rows @ post)))
         \<and> tableFieldBlock section fieldIndex field headers rows
             = tableSlide section field fieldIndex headers (tableText headers rows)
               # optionList (chartOf field section fieldIndex headers rows)
               @ photoPages (section_id section @ ''-table-photos-'' @ showNat fieldIndex)
                   (strOr (field_label field) (section_title section) @ '' - Photos'')
                   (storedPhotos rows) 0
         \<and> layout (tableSlide section field fieldIndex headers (tableText headers rows))
             = TwoColumn
         \<and> (valueColumn headers rows = None \<longrightarrow>
              chartOf field section fieldIndex headers rows = None)
         \<and> (valueColumn headers rows = Some c
              \<and> (chartPairs headers rows c = [] \<or> allZero (chartPairs headers rows c)) \<longrightarrow>
              chartOf field section fieldIndex headers rows = None)
         \<and> (valueColumn headers rows = Some c
              \<and> chartPairs headers rows c \<noteq> [] \<and> \<not> allZero (chartPairs headers rows c) \<longrightarrow>
              (\<exists>cs. chartOf field section fieldIndex headers rows = Some cs
                    \<and> layout cs = ChartFull
                    \<and> data cs = ChartData
                                  (if length (chartPairs headers rows c) \<le> 5 then Pie else Bar)
                                  (map fst (chartPairs headers rows c))
                                  (map snd (chartPairs headers rows c))))"
proof -
  have z: "getProp sectionData (field_id field) = Inr stored
            \<and> (\<not> truthy stored \<or> \<not> isArray stored \<or> elems stored = []) \<longrightarrow>
            tableFieldSlides section sectionData (fieldIndex, field) = Inr []"
    using tableFieldSlides_no_rows by blast
  have a: "getProp sectionData (field_id field) = Inr (JArr rows) \<and> rows \<noteq> []
              \<and> list_all plainRow rows \<longrightarrow>
              tableFieldSlides section sectionData (fieldIndex, field)
                = Inr (tableFieldBlock section fieldIndex field headers rows)"
    using tableFieldSlides_plain [OF assms] by blast
  have g: "getProp sectionData (field_id field) = Inr (JArr rows) \<and> rows \<noteq> []
              \<and> list_all plainRow rows \<longrightarrow>
              (resolve template formData = Inr slides
                   \<and> section \<in> set (template_sections template) \<and> \<not> reservedSection section
                   \<and> (fieldIndex, field) \<in> set (enumerate 0 (tablesOf section))
                   \<and> sectionDataOf formData (section_id section) = Inr sectionData \<longrightarrow>
                   (\<exists>pre post.
                      slides = pre @ tableFieldBlock section fieldIndex field headers rows @ post))"
    using resolve_table_block a by blast
  have b: "tableFieldBlock section fieldIndex field headers rows
             = tableSlide section field fieldIndex headers (tableText headers rows)
               # optionList (chartOf field section fieldIndex headers rows)
               @ photoPages (section_id section @ ''-table-photos-'' @ showNat fieldIndex)
                   (strOr (field_label field) (section_title section) @ '' - Photos'')
                   (storedPhotos rows) 0"
    by (simp add: tableFieldBlock_def)
  have c: "layout (tableSlide section field fieldIndex headers (tableText headers rows))
             = TwoColumn"
    by (simp add: tableSlide_def)
  have d: "valueColumn headers rows = None \<longrightarrow>
              chartOf field section fieldIndex headers rows = None"
    by (simp add: chartOf_def)
  have e: "valueColumn headers rows = Some c
              \<and> (chartPairs headers rows c = [] \<or> allZero (chartPairs headers rows c)) \<longrightarrow>
              chartOf field section fieldIndex headers rows = None"
    by (auto simp: chartOf_def)
  have f: "valueColumn headers rows = Some c
              \<and> chartPairs headers rows c \<noteq> [] \<and> \<not> allZero (chartPairs headers rows c) \<longrightarrow>
              (\<exists>cs. chartOf field section fieldIndex headers rows = Some cs
                    \<and> layout cs = ChartFull
                    \<and> data cs = ChartData
                                  (if length (chartPairs headers rows c) \<le> 5 then Pie else Bar)
                                  (map fst (chartPairs headers rows c))
                                  (map snd (chartPairs headers rows c)))"
    by (auto simp: chartOf_def chartSlide_fields)
  from z a g b c d e f show ?thesis by blast
qed

theorem chart_derivation_witness:
  "field_columns incomeField = Some [''Item'', ''Amount'']
   \<and> 2 \<le> length [''Item'', ''Amount'']
   \<and> getProp (JObj [(''incomeTable'', JArr [])]) (field_id incomeField) = Inr (JArr [])
   \<and> elems (JArr []) = []
   \<and> tableFieldSlides financialSection (JObj [(''incomeTable'', JArr [])]) (0, incomeField)
       = Inr []
   \<and> getProp (JObj [(''incomeTable'', JArr incomeRows)]) (field_id incomeField)
       = Inr (JArr incomeRows)
   \<and> incomeRows \<noteq> [] \<and> list_all plainRow incomeRows
   \<and> valueColumn [''Item'', ''Amount''] incomeRows = Some (Suc 0)
   \<and> chartPairs [''Item'', ''Amount''] incomeRows (Suc 0) = [(''Offerings'', Fin 1200)]
   \<and> tableFieldSlides financialSection (JObj [(''incomeTable'', JArr incomeRows)])
        (0, incomeField)
       = Inr (tableFieldBlock financialSection 0 incomeField [''Item'', ''Amount''] incomeRows)
   \<and> map_option data (chartOf incomeField financialSection 0 [''Item'', ''Amount''] incomeRows)
       = Some (ChartData Pie [''Offerings''] [Fin 1200])
   \<and> resolve (scenarioTemplate ''k'' ''n'' ''t'') scenarioData
       = Inr (slidesOf (resolve (scenarioTemplate ''k'' ''n'' ''t'') scenarioData))
   \<and> financialSection \<in> set (template_sections (scenarioTemplate ''k'' ''n'' ''t''))
   \<and> \<not> reservedSection financialSection
   \<and> (0, incomeField) \<in> set (enumerate 0 (tablesOf financialSection))
   \<and> sectionDataOf scenarioData (section_id financialSection)
       = Inr (JObj [(''incomeTable'', JArr incomeRows)])
   \<and> (\<exists>pre post. slidesOf (resolve (scenarioTemplate ''k'' ''n'' ''t'') scenarioData)
         = pre @ tableFieldBlock financialSection 0 incomeField [''Item'', ''Amount''] incomeRows
           @ post)
   \<and> getProp (JObj [(''incomeTable'', JArr tinyRows)]) (field_id incomeField)
       = Inr (JArr tinyRows)
   \<and> tinyRows \<noteq> [] \<and> list_all plainRow tinyRows
   \<and> valueColumn [''Item'', ''Amount''] tinyRows = Some (Suc 0)
   \<and> chartPairs [''Item'', ''Amount''] tinyRows (Suc 0) = [(''a'', Fin 0)]
   \<and> allZero [(''a'', Fin 0)]
   \<and> chartOf incomeField financialSection 0 [''Item'', ''Amount''] tinyRows = None
   \<and> map layout (tableFieldBlock financialSection 0 incomeField [''Item'', ''Amount''] tinyRows)
       = [TwoColumn]"
proof -
  have h1: "field_columns incomeField = Some [''Item'', ''Amount'']"
    by (simp add: incomeField_def)
  have h2: "2 \<le> length [''Item'', ''Amount'']"
    by simp
  have e1: "getProp (JObj [(''incomeTable'', JArr [])]) (field_id incomeField) = Inr (JArr [])"
    by (simp add: getProp_def isNullish_def incomeField_def)
  have e2: "elems (JArr []) = []"
    by simp
  from chart_derivation [OF h1 h2, of "JObj [(''incomeTable'', JArr [])]" "JArr []"
                           financialSection 0] e1 e2
  have e3: "tableFieldSlides financialSection (JObj [(''incomeTable'', JArr [])]) (0, incomeField)
            = Inr []"
    by blast
  have h3: "getProp (JObj [(''incomeTable'', JArr incomeRows)]) (field_id incomeField)
       = Inr (JArr incomeRows)"
    by (simp add: getProp_def isNullish_def incomeField_def)
  have h4: "incomeRows \<noteq> []"
    by (simp add: incomeRows_def)
  have nz: "chartPairs [''Item'', ''Amount''] incomeRows (Suc 0) \<noteq> []
            \<and> \<not> allZero (chartPairs [''Item'', ''Amount''] incomeRows (Suc 0))"
    by (simp add: income_pairs allZero_def)
  have r1: "resolve (scenarioTemplate ''k'' ''n'' ''t'') scenarioData
            = Inr (slidesOf (resolve (scenarioTemplate ''k'' ''n'' ''t'') scenarioData))"
    by (simp add: scenario_resolve slidesOf_def)
  have r2: "financialSection \<in> set (template_sections (scenarioTemplate ''k'' ''n'' ''t''))"
    by (simp add: scenarioTemplate_def financialSection_def incomeField_def)
  have r3: "\<not> reservedSection financialSection"
    by (simp add: reservedSection_def financialSection_def)
  have r4: "(0, incomeField) \<in> set (enumerate 0 (tablesOf financialSection))"
    by (simp add: tablesOf_def financialSection_def incomeField_def)
  have r5: "sectionDataOf scenarioData (section_id financialSection)
            = Inr (JObj [(''incomeTable'', JArr incomeRows)])"
    by (simp add: sectionDataOf_def getProp_def isNullish_def jsOr_def scenarioData_def
          financialSection_def incomeRows_def)
  note t = chart_derivation [OF h1 h2, of "JObj [(''incomeTable'', JArr incomeRows)]" _
                               financialSection 0 incomeRows
                               "scenarioTemplate ''k'' ''n'' ''t''" scenarioData
                               "slidesOf (resolve (scenarioTemplate ''k'' ''n'' ''t'') scenarioData)"
                               "Suc 0"]
  from t h3 h4 income_plain r1 r2 r3 r4 r5
  have r6: "\<exists>pre post. slidesOf (resolve (scenarioTemplate ''k'' ''n'' ''t'') scenarioData)
         = pre @ tableFieldBlock financialSection 0 incomeField [''Item'', ''Amount''] incomeRows
           @ post"
    by blast
  from t h3 h4 income_plain
  have s: "tableFieldSlides financialSection (JObj [(''incomeTable'', JArr incomeRows)])
        (0, incomeField)
       = Inr (tableFieldBlock financialSection 0 incomeField [''Item'', ''Amount''] incomeRows)"
    by blast
  from t income_valueColumn nz obtain cs where
    "chartOf incomeField financialSection 0 [''Item'', ''Amount''] incomeRows = Some cs"
    "data cs = ChartData
                 (if length (chartPairs [''Item'', ''Amount''] incomeRows (Suc 0)) \<le> 5
                  then Pie else Bar)
                 (map fst (chartPairs [''Item'', ''Amount''] incomeRows (Suc 0)))
                 (map snd (chartPairs [''Item'', ''Amount''] incomeRows (Suc 0)))"
    by blast
  then have d: "map_option data
                  (chartOf incomeField financialSection 0 [''Item'', ''Amount''] incomeRows)
                = Some (ChartData Pie [''Offerings''] [Fin 1200])"
    by (simp add: income_pairs)
  have k3: "getProp (JObj [(''incomeTable'', JArr tinyRows)]) (field_id incomeField)
       = Inr (JArr tinyRows)"
    by (simp add: getProp_def isNullish_def incomeField_def)
  have k4: "tinyRows \<noteq> []"
    by (simp add: tinyRows_def)
  have kz: "allZero [(''a'', Fin 0)]"
    by (simp add: allZero_def)
  then have kz': "allZero (chartPairs [''Item'', ''Amount''] tinyRows (Suc 0))"
    by (simp only: tiny_pairs)
  note u = chart_derivation [OF h1 h2, of "JObj [(''incomeTable'', JArr tinyRows)]" _
                               financialSection 0 tinyRows _ _ _ "Suc 0"]
  from u tiny_valueColumn kz'
  have k5: "chartOf incomeField financialSection 0 [''Item'', ''Amount''] tinyRows = None"
    by blast
  from u have "tableFieldBlock financialSection 0 incomeField [''Item'', ''Amount''] tinyRows
             = tableSlide financialSection incomeField 0 [''Item'', ''Amount'']
                 (tableText [''Item'', ''Amount''] tinyRows)
               # optionList (chartOf incomeField financialSection 0 [''Item'', ''Amount''] tinyRows)
               @ photoPages (section_id financialSection @ ''-table-photos-'' @ showNat 0)
                   (strOr (field_label incomeField) (section_title financialSection)
                    @ '' - Photos'')
                   (storedPhotos tinyRows) 0"
    by blast
  then have k6: "map layout
                   (tableFieldBlock financialSection 0 incomeField [''Item'', ''Amount''] tinyRows)
                 = [TwoColumn]"
    by (simp add: k5 tiny_photos photoPages_Nil tableSlide_def)
  from h1 h2 e1 e2 e3 h3 h4 income_plain income_valueColumn income_pairs s d
       r1 r2 r3 r4 r5 r6 k3 k4 tiny_plain tiny_valueColumn tiny_pairs kz k5 k6
  show ?thesis by blast
qed

text \<open>
  C10. At most one KPI per table field: whatever the stored data, a field adds at most
  one KPI to the scan; and on a table field with at least one declared column whose
  stored table is an array of row records it adds \<open>kpiOfTable\<close>: the number in the first
  column after the first that holds a number, in the first row whose first cell contains
  \<^verbatim>\<open>total\<close>, \<^verbatim>\<open>surplus\<close> or \<^verbatim>\<open>deficit\<close> in any case, and nothing when there is no such row
  or no such column in it. Later such rows and later numeric columns add nothing: of the
  rows Tithe, Sub Total (n/a, 30, 40) and Grand Total (99, 98, 97) the one KPI is 30.
\<close>

theorem one_kpi_per_table:
  "(fieldKpis sectionData field = Inr ks \<longrightarrow> length ks \<le> 1)
   \<and> (field_type field = TABLE \<and> field_columns field = Some headers \<and> headers \<noteq> []
        \<and> getProp sectionData (field_id field) = Inr (JArr rows)
        \<and> list_all plainRow rows \<longrightarrow>
        fieldKpis sectionData field = Inr (kpiOfTable (field_label field) headers rows))
   \<and> length (kpiOfTable label headers rows) \<le> 1
   \<and> kpiOfTable ''Budget'' [''Item'', ''Q1'', ''Q2'', ''Q3''] budgetRows = [(Fin 30, ''Budget'')]"
proof -
  have a: "fieldKpis sectionData field = Inr ks \<longrightarrow> length ks \<le> 1"
    using fieldKpis_at_most_one by blast
  have b: "field_type field = TABLE \<and> field_columns field = Some headers \<and> headers \<noteq> []
        \<and> getProp sectionData (field_id field) = Inr (JArr rows)
        \<and> list_all plainRow rows \<longrightarrow>
        fieldKpis sectionData field = Inr (kpiOfTable (field_label field) headers rows)"
    using fieldKpis_plain by blast
  from a b kpiOfTable_at_most_one budget_kpi show ?thesis by blast
qed

theorem one_kpi_per_table_witness:
  "field_type budgetField = TABLE
   \<and> field_columns budgetField = Some [''Item'', ''Q1'', ''Q2'', ''Q3'']
   \<and> [''Item'', ''Q1'', ''Q2'', ''Q3''] \<noteq> []
   \<and> getProp (JObj [(''budget'', JArr budgetRows)]) (field_id budgetField)
       = Inr (JArr budgetRows)
   \<and> list_all plainRow budgetRows
   \<and> fieldKpis (JObj [(''budget'', JArr budgetRows)]) budgetField = Inr [(Fin 30, ''Budget'')]
   \<and> length [(Fin 30, ''Budget'')] \<le> (1::nat)"
proof -
  have h1: "field_type budgetField = TABLE"
    "field_columns budgetField = Some [''Item'', ''Q1'', ''Q2'', ''Q3'']"
    "field_label budgetField = ''Budget''"
    by (simp_all add: budgetField_def)
  have h2: "getProp (JObj [(''budget'', JArr budgetRows)]) (field_id budgetField)
       = Inr (JArr budgetRows)"
    by (simp add: getProp_def isNullish_def budgetField_def)
  note t = one_kpi_per_table [of "JObj [(''budget'', JArr budgetRows)]" budgetField
      "[(Fin 30, ''Budget'')]" "[''Item'', ''Q1'', ''Q2'', ''Q3'']" budgetRows "''Budget''"]
  from t h1 h2 budget_plain have
    "fieldKpis (JObj [(''budget'', JArr budgetRows)]) budgetField
     = Inr (kpiOfTable (field_label budgetField) [''Item'', ''Q1'', ''Q2'', ''Q3''] budgetRows)"
    by blast
  then have k: "fieldKpis (JObj [(''budget'', JArr budgetRows)]) budgetField
                = Inr [(Fin 30, ''Budget'')]"
    by (simp add: h1 budget_kpi)
  from t k have "length [(Fin 30, ''Budget'')] \<le> (1::nat)"
    by blast
  with h1 h2 budget_plain k show ?thesis by simp
qed

end
